theory Spec2Isabelle
  imports Main
begin

section \<open>JavaScript values and thrown values\<close>

text \<open>
  The values that flow through \<^verbatim>\<open>App.jsx\<close>: SDK responses, parsed JSON bodies and the
  fields of thrown objects. Numbers are the integers (no claim depends on a fraction or on
  NaN); an object is its list of own properties, looked up by key.
\<close>

datatype jsval =
    JUndefined
  | JNull
  | JBool bool
  | JNum int
  | JStr string
  | JArr "jsval list"
  | JObj "(string \<times> jsval) list"

text \<open>JavaScript truthiness, as used by \<^verbatim>\<open>||\<close>, \<^verbatim>\<open>!\<close> and \<^verbatim>\<open>if\<close>.\<close>

fun truthy :: "jsval \<Rightarrow> bool" where
  "truthy JUndefined = False"
| "truthy JNull = False"
| "truthy (JBool b) = b"
| "truthy (JNum n) = (n \<noteq> 0)"
| "truthy (JStr s) = (s \<noteq> [])"
| "truthy (JArr xs) = True"
| "truthy (JObj kvs) = True"

text \<open>\<^verbatim>\<open>a || b\<close>\<close>

definition js_or :: "jsval \<Rightarrow> jsval \<Rightarrow> jsval" where
  "js_or a b = (if truthy a then a else b)"

fun nullish :: "jsval \<Rightarrow> bool" where
  "nullish JUndefined = True"
| "nullish JNull = True"
| "nullish v = False"

text \<open>
  \<^verbatim>\<open>v.k\<close> on a value that is neither null nor undefined. The keys read in this program
  (\<^verbatim>\<open>message\<close>, \<^verbatim>\<open>content\<close>, \<^verbatim>\<open>response\<close>, \<^verbatim>\<open>text\<close>, \<^verbatim>\<open>error\<close>) are own properties of
  objects only: on a string, a number, a boolean or an array they read \<^verbatim>\<open>undefined\<close>.
\<close>

fun get_prop :: "jsval \<Rightarrow> string \<Rightarrow> jsval" where
  "get_prop (JObj kvs) k = (case map_of kvs k of Some v \<Rightarrow> v | None \<Rightarrow> JUndefined)"
| "get_prop v k = JUndefined"

text \<open>\<^verbatim>\<open>v?.k\<close>\<close>

definition opt_prop :: "jsval \<Rightarrow> string \<Rightarrow> jsval" where
  "opt_prop v k = (if nullish v then JUndefined else get_prop v k)"

text \<open>\<^verbatim>\<open>xs[0]\<close> on an array: \<^verbatim>\<open>undefined\<close> when the array is empty.\<close>

fun first_elem :: "jsval list \<Rightarrow> jsval" where
  "first_elem [] = JUndefined"
| "first_elem (x # xs) = x"

text \<open>
  What a \<^verbatim>\<open>throw\<close> or a rejected promise carries: an instance of an error class (its
  \<^verbatim>\<open>name\<close>, which for the built-in classes and for DOMException identifies the class, and its
  \<^verbatim>\<open>message\<close>), or any other value: an object literal such as
  \<^verbatim>\<open>{ type, message, status }\<close>, a string, or \<^verbatim>\<open>undefined\<close> or \<^verbatim>\<open>null\<close>, as a promise
  rejected without a reason carries.
\<close>

datatype js_exn =
    ErrorInst string string
  | Thrown jsval

text \<open>The value of \<^verbatim>\<open>e.k\<close>, where the read does not throw.\<close>

fun exn_prop :: "js_exn \<Rightarrow> string \<Rightarrow> jsval" where
  "exn_prop (ErrorInst n m) k =
     (if k = ''name'' then JStr n else if k = ''message'' then JStr m else JUndefined)"
| "exn_prop (Thrown v) k = get_prop v k"

text \<open>\<^verbatim>\<open>error instanceof TypeError\<close>\<close>

fun instanceof_TypeError :: "js_exn \<Rightarrow> bool" where
  "instanceof_TypeError (ErrorInst n m) = (n = ''TypeError'')"
| "instanceof_TypeError (Thrown v) = False"

text \<open>
  Reading a property of \<^verbatim>\<open>undefined\<close> or \<^verbatim>\<open>null\<close> throws a TypeError; the message is the
  engine's (here V8's), and it does not contain \<^verbatim>\<open>fetch\<close> in any engine.
\<close>

definition nullish_read :: "jsval \<Rightarrow> string \<Rightarrow> js_exn" where
  "nullish_read v k =
     ErrorInst ''TypeError''
       (''Cannot read properties of '' @ (if v = JNull then ''null'' else ''undefined'') @
        '' (reading '' @ [CHR 0x27] @ k @ [CHR 0x27] @ '')'')"

text \<open>
  \<^verbatim>\<open>e.k\<close> as the code evaluates it on a caught value \<open>e\<close>: the read throws when \<open>e\<close> is
  \<^verbatim>\<open>undefined\<close> or \<^verbatim>\<open>null\<close>.
\<close>

fun exn_nullish :: "js_exn \<Rightarrow> bool" where
  "exn_nullish (ErrorInst n m) = False"
| "exn_nullish (Thrown v) = nullish v"

fun read_exn :: "js_exn \<Rightarrow> string \<Rightarrow> js_exn + jsval" where
  "read_exn (ErrorInst n m) k = Inr (exn_prop (ErrorInst n m) k)"
| "read_exn (Thrown v) k = (if nullish v then Inl (nullish_read v k) else Inr (get_prop v k))"

text \<open>\<^verbatim>\<open>s.includes(p)\<close>: \<open>p\<close> occurs in \<open>s\<close> as a contiguous substring.\<close>

fun str_includes :: "string \<Rightarrow> string \<Rightarrow> bool" where
  "str_includes [] p = (p = [])"
| "str_includes (c # cs) p = (take (length p) (c # cs) = p \<or> str_includes cs p)"

text \<open>The decimal digits of a number, as a template literal prints it.\<close>

fun string_of_nat :: "nat \<Rightarrow> string" where
  "string_of_nat n =
     (if n < 10 then [char_of (48 + n)]
      else string_of_nat (n div 10) @ [char_of (48 + n mod 10)])"

declare string_of_nat.simps [simp del]

section \<open>Configuration\<close>

text \<open>
  \<^verbatim>\<open>process.env\<close>, as far as \<^verbatim>\<open>ENV_CONFIG\<close> reads it. A variable that is not set is
  \<open>None\<close>. For the numeric settings the field holds what \<^verbatim>\<open>parseInt\<close> returned, \<open>None\<close>
  standing for NaN.
\<close>

record process_env =
  REACT_APP_PUTER_API_KEY :: "string option"
  REACT_APP_PUTER_TIMEOUT :: "int option"
  REACT_APP_PUTER_MAX_RETRIES :: "int option"
  REACT_APP_PUTER_RETRY_DELAY :: "int option"
  REACT_APP_USE_DIRECT_API :: "string option"
  REACT_APP_MAX_INPUT_LENGTH :: "int option"
  REACT_APP_STREAMING_DELAY :: "int option"
  REACT_APP_ENVIRONMENT :: "string option"

record env_config =
  PUTER_API_KEY :: "string option"
  PUTER_TIMEOUT :: int
  PUTER_MAX_RETRIES :: int
  PUTER_RETRY_DELAY :: int
  USE_DIRECT_API :: bool
  MAX_INPUT_LENGTH :: int
  STREAMING_DELAY :: int
  ENVIRONMENT :: string

text \<open>\<^verbatim>\<open>parseInt(x) || d\<close>: NaN and 0 are falsy.\<close>

definition parsed_or :: "int option \<Rightarrow> int \<Rightarrow> int" where
  "parsed_or p d = (case p of None \<Rightarrow> d | Some n \<Rightarrow> if n = 0 then d else n)"

definition ENV_CONFIG :: "process_env \<Rightarrow> env_config" where
  "ENV_CONFIG pe =
     \<lparr> PUTER_API_KEY = REACT_APP_PUTER_API_KEY pe,
       PUTER_TIMEOUT = parsed_or (REACT_APP_PUTER_TIMEOUT pe) 30000,
       PUTER_MAX_RETRIES = parsed_or (REACT_APP_PUTER_MAX_RETRIES pe) 3,
       PUTER_RETRY_DELAY = parsed_or (REACT_APP_PUTER_RETRY_DELAY pe) 1000,
       USE_DIRECT_API = (REACT_APP_USE_DIRECT_API pe = Some ''true''),
       MAX_INPUT_LENGTH = parsed_or (REACT_APP_MAX_INPUT_LENGTH pe) 4000,
       STREAMING_DELAY = parsed_or (REACT_APP_STREAMING_DELAY pe) 30,
       ENVIRONMENT =
         (case REACT_APP_ENVIRONMENT pe of
            None \<Rightarrow> ''Live''
          | Some e \<Rightarrow> if e = [] then ''Live'' else e) \<rparr>"

text \<open>The environment with no variable set, and the configuration it gives.\<close>

definition empty_env :: process_env where
  "empty_env =
     \<lparr> REACT_APP_PUTER_API_KEY = None, REACT_APP_PUTER_TIMEOUT = None,
       REACT_APP_PUTER_MAX_RETRIES = None, REACT_APP_PUTER_RETRY_DELAY = None,
       REACT_APP_USE_DIRECT_API = None, REACT_APP_MAX_INPUT_LENGTH = None,
       REACT_APP_STREAMING_DELAY = None, REACT_APP_ENVIRONMENT = None \<rparr>"

text \<open>\<^verbatim>\<open>ENV_CONFIG.PUTER_API_KEY\<close> as a condition: set and not the empty string.\<close>

definition key_configured :: "env_config \<Rightarrow> bool" where
  "key_configured c = (case PUTER_API_KEY c of None \<Rightarrow> False | Some k \<Rightarrow> k \<noteq> [])"

text \<open>\<^verbatim>\<open>ErrorTypes\<close>\<close>

definition ErrorTypes_NETWORK :: string where "ErrorTypes_NETWORK = ''NETWORK_ERROR''"
definition ErrorTypes_TIMEOUT :: string where "ErrorTypes_TIMEOUT = ''TIMEOUT_ERROR''"
definition ErrorTypes_AUTH :: string where "ErrorTypes_AUTH = ''AUTHENTICATION_ERROR''"
definition ErrorTypes_RATE_LIMIT :: string where "ErrorTypes_RATE_LIMIT = ''RATE_LIMIT_ERROR''"
definition ErrorTypes_SERVER :: string where "ErrorTypes_SERVER = ''SERVER_ERROR''"
definition ErrorTypes_UNKNOWN :: string where "ErrorTypes_UNKNOWN = ''UNKNOWN_ERROR''"

section \<open>The world outside the pipeline\<close>

text \<open>
  What the SDK and the network answer is not decided by the program: the \<open>i\<close>-th call of
  \<^verbatim>\<open>window.puter.ai.chat\<close> and the \<open>i\<close>-th \<^verbatim>\<open>fetch\<close> of one pipeline run get the outcome the
  world gives them. A \<^verbatim>\<open>fetch\<close> rejects (a transport failure, or the AbortError that the
  timeout's \<^verbatim>\<open>controller.abort()\<close> causes) or resolves to a response: its status and what
  \<^verbatim>\<open>response.json()\<close> does with its body (rejects, or resolves to the parsed value).
\<close>

datatype sdk_outcome = SdkRejects js_exn | SdkResolves jsval

datatype fetch_outcome = Rejects js_exn | Responds nat "js_exn + jsval"

record world =
  config :: env_config
  puter_chat :: bool
  isPuterLoaded :: bool
  sdk_reply :: "nat \<Rightarrow> sdk_outcome"
  fetch_reply :: "nat \<Rightarrow> fetch_outcome"

text \<open>
  What a run does to the outside, in order: the SDK calls and the fetches it issues (with
  the prompt sent) and the delays it awaits (in milliseconds). \<open>hook_error\<close> is the
  hook's \<^verbatim>\<open>error\<close> state.
\<close>

datatype event = SdkCall string | Fetch string | Sleep int

fun is_Fetch :: "event \<Rightarrow> bool" where
  "is_Fetch (Fetch p) = True"
| "is_Fetch e = False"

fun is_SdkCall :: "event \<Rightarrow> bool" where
  "is_SdkCall (SdkCall p) = True"
| "is_SdkCall e = False"

definition fetches :: "event list \<Rightarrow> nat" where
  "fetches tr = length (filter is_Fetch tr)"

definition sdk_calls :: "event list \<Rightarrow> nat" where
  "sdk_calls tr = length (filter is_SdkCall tr)"

record pstate =
  trace :: "event list"
  hook_error :: "(jsval \<times> string) option"

definition emit :: "event \<Rightarrow> pstate \<Rightarrow> pstate" where
  "emit e s = s\<lparr>trace := trace s @ [e]\<rparr>"

definition pstate0 :: pstate where
  "pstate0 = \<lparr> trace = [], hook_error = None \<rparr>"

section \<open>The transport adapter: \<^verbatim>\<open>callDirectAPI\<close>\<close>

text \<open>\<^verbatim>\<open>response.ok\<close>: the status is in the range 200 to 299.\<close>

definition response_ok :: "nat \<Rightarrow> bool" where
  "response_ok st = (200 \<le> st \<and> st \<le> 299)"

text \<open>The object literals that \<^verbatim>\<open>callDirectAPI\<close> throws.\<close>

definition typed_error :: "string \<Rightarrow> jsval \<Rightarrow> nat \<Rightarrow> js_exn" where
  "typed_error ty msg st =
     Thrown (JObj [(''type'', JStr ty), (''message'', msg), (''status'', JNum (int st))])"

text \<open>
  The \<^verbatim>\<open>switch (response.status)\<close> of the branch \<^verbatim>\<open>!response.ok\<close>; \<open>errorData\<close> is
  \<^verbatim>\<open>await response.json().catch(() => ({}))\<close>. What it returns is thrown.
\<close>

definition status_error :: "nat \<Rightarrow> jsval \<Rightarrow> js_exn" where
  "status_error st errorData =
     (if st = 401 then typed_error ErrorTypes_AUTH (JStr ''Invalid API key'') 401
      else if st = 429 then typed_error ErrorTypes_RATE_LIMIT (JStr ''Rate limit exceeded'') 429
      else if st = 503 \<or> st = 504 then typed_error ErrorTypes_SERVER (JStr ''Service unavailable'') st
      else if nullish errorData then nullish_read errorData ''error''
      else typed_error ErrorTypes_UNKNOWN
             (js_or (get_prop errorData ''error'') (JStr (''API Error: '' @ string_of_nat st))) st)"

text \<open>
  \<^verbatim>\<open>data.message?.content || data.response || data.text || "No response generated"\<close>,
  for \<open>data\<close> that is not null.
\<close>

definition extract_text :: "jsval \<Rightarrow> jsval" where
  "extract_text data =
     js_or (opt_prop (get_prop data ''message'') ''content'')
       (js_or (get_prop data ''response'')
          (js_or (get_prop data ''text'') (JStr ''No response generated'')))"

text \<open>
  The body of the \<^verbatim>\<open>try\<close>: the key check, the fetch, and the reading of the response.
  The fetch is the next one of the run, so its outcome is the world's at the number of
  fetches issued so far.
\<close>

definition callDirectAPI_try :: "world \<Rightarrow> string \<Rightarrow> pstate \<Rightarrow> (js_exn + jsval) \<times> pstate" where
  "callDirectAPI_try w prompt s =
     (if \<not> key_configured (config w)
      then (Inl (ErrorInst ''Error'' ''API key is not configured''), s)
      else
        (case fetch_reply w (fetches (trace s)) of
           Rejects e \<Rightarrow> (Inl e, emit (Fetch prompt) s)
         | Responds st body \<Rightarrow>
             (if \<not> response_ok st
              then (Inl (status_error st (case body of Inl e \<Rightarrow> JObj [] | Inr d \<Rightarrow> d)),
                    emit (Fetch prompt) s)
              else
                (case body of
                   Inl e \<Rightarrow> (Inl e, emit (Fetch prompt) s)
                 | Inr data \<Rightarrow>
                     (if nullish data then (Inl (nullish_read data ''message''), emit (Fetch prompt) s)
                      else (Inr (extract_text data), emit (Fetch prompt) s))))))"

text \<open>
  The \<^verbatim>\<open>catch\<close> of \<^verbatim>\<open>callDirectAPI\<close>: what it throws for the error it caught. Its first
  read, \<^verbatim>\<open>error.name\<close>, throws when the caught value is \<^verbatim>\<open>undefined\<close> or \<^verbatim>\<open>null\<close>.
\<close>

definition callDirectAPI_catch :: "js_exn \<Rightarrow> js_exn" where
  "callDirectAPI_catch e =
     (case read_exn e ''name'' of
        Inl type_error \<Rightarrow> type_error
      | Inr name \<Rightarrow>
          (if name = JStr ''AbortError'' \<or> name = JStr ''TimeoutError''
           then typed_error ErrorTypes_TIMEOUT (JStr ''Request timeout'') 408
           else if instanceof_TypeError e \<and>
                   (case exn_prop e ''message'' of JStr m \<Rightarrow> str_includes m ''fetch'' | _ \<Rightarrow> False)
           then typed_error ErrorTypes_NETWORK (JStr ''Network connection failed'') 0
           else e))"

definition callDirectAPI :: "world \<Rightarrow> string \<Rightarrow> pstate \<Rightarrow> (js_exn + jsval) \<times> pstate" where
  "callDirectAPI w prompt s =
     (case callDirectAPI_try w prompt s of
        (Inl e, s') \<Rightarrow> (Inl (callDirectAPI_catch e), s')
      | (Inr v, s') \<Rightarrow> (Inr v, s'))"

section \<open>The pipeline: \<^verbatim>\<open>callPuterAI\<close>\<close>

text \<open>
  What the SDK branch makes of the value \<^verbatim>\<open>window.puter.ai.chat\<close> resolved to: the value
  it returns, or the \<^verbatim>\<open>Error\<close> it throws (into the \<^verbatim>\<open>catch (sdkError)\<close> around it).
\<close>

definition sdk_normalize :: "jsval \<Rightarrow> js_exn + jsval" where
  "sdk_normalize response =
     (case response of
        JStr s \<Rightarrow> Inr (JStr s)
      | _ \<Rightarrow>
          (if truthy (opt_prop (opt_prop response ''message'') ''content'')
           then
             (case get_prop (get_prop response ''message'') ''content'' of
                JArr parts \<Rightarrow> Inr (js_or (opt_prop (first_elem parts) ''text'') (JStr []))
              | content \<Rightarrow> Inr content)
           else Inl (ErrorInst ''Error'' ''Invalid SDK response format'')))"

text \<open>The inner \<^verbatim>\<open>try\<close>: the SDK call and the reading of its response.\<close>

definition sdk_attempt :: "world \<Rightarrow> pstate \<Rightarrow> js_exn + jsval" where
  "sdk_attempt w s =
     (case sdk_reply w (sdk_calls (trace s)) of
        SdkRejects e \<Rightarrow> Inl e
      | SdkResolves r \<Rightarrow> sdk_normalize r)"

text \<open>
  \<^verbatim>\<open>!ENV_CONFIG.USE_DIRECT_API && window.puter?.ai?.chat && isPuterLoaded\<close>
\<close>

definition sdk_path :: "world \<Rightarrow> bool" where
  "sdk_path w = (\<not> USE_DIRECT_API (config w) \<and> puter_chat w \<and> isPuterLoaded w)"

definition mock_response :: "string \<Rightarrow> string" where
  "mock_response prompt =
     ''This is a mock response from the AI assistant in development mode.'' @ [CHR 0x0A, CHR 0x0A] @
     ''Your prompt was: '' @ [CHR 0x22] @ prompt @ [CHR 0x22] @ [CHR 0x0A, CHR 0x0A] @
     ''To use the real API, please add your Puter.ai API key to the .env file.''"

definition not_configured_error :: js_exn where
  "not_configured_error =
     Thrown (JObj [(''type'', JStr ErrorTypes_AUTH),
                   (''message'', JStr ''API key is not configured'')])"

text \<open>
  The outer \<^verbatim>\<open>try\<close> of \<^verbatim>\<open>callPuterAI\<close>: one attempt. The inner \<^verbatim>\<open>catch (sdkError)\<close>
  evaluates \<^verbatim>\<open>sdkError.message\<close> for its warning before it calls \<^verbatim>\<open>callDirectAPI\<close>; when
  the SDK rejected with \<^verbatim>\<open>undefined\<close> or \<^verbatim>\<open>null\<close> that read throws, out of the inner
  \<^verbatim>\<open>catch\<close> and into the outer one, and the direct call is not made.
\<close>

definition attempt :: "world \<Rightarrow> string \<Rightarrow> pstate \<Rightarrow> (js_exn + jsval) \<times> pstate" where
  "attempt w prompt s =
     (if sdk_path w then
        (case sdk_attempt w s of
           Inr v \<Rightarrow> (Inr v, emit (SdkCall prompt) s)
         | Inl sdkError \<Rightarrow>
             (case read_exn sdkError ''message'' of
                Inl type_error \<Rightarrow> (Inl type_error, emit (SdkCall prompt) s)
              | Inr message \<Rightarrow> callDirectAPI w prompt (emit (SdkCall prompt) s)))
      else if key_configured (config w) then callDirectAPI w prompt s
      else if ENVIRONMENT (config w) = ''development''
      then (Inr (JStr (mock_response prompt)), emit (Sleep 1000) s)
      else (Inl not_configured_error, s))"

text \<open>\<^verbatim>\<open>error.type || ErrorTypes.UNKNOWN\<close>\<close>

definition errorType_of :: "js_exn \<Rightarrow> jsval" where
  "errorType_of e = js_or (exn_prop e ''type'') (JStr ErrorTypes_UNKNOWN)"

definition retryable :: "jsval \<Rightarrow> bool" where
  "retryable t =
     (t = JStr ErrorTypes_TIMEOUT \<or> t = JStr ErrorTypes_NETWORK \<or>
      t = JStr ErrorTypes_SERVER \<or> t = JStr ErrorTypes_RATE_LIMIT)"

text \<open>The user messages; each starts with an emoji, given here by its UTF-8 bytes.\<close>

definition msg_timeout :: string where
  "msg_timeout = [CHR 0xE2, CHR 0x8F, CHR 0xB0] @ '' Request timed out. Please try again.''"

definition msg_network :: string where
  "msg_network =
     [CHR 0xF0, CHR 0x9F, CHR 0x8C, CHR 0x90] @
     '' Network error. Please check your internet connection.''"

definition msg_auth :: string where
  "msg_auth =
     [CHR 0xF0, CHR 0x9F, CHR 0x94, CHR 0x91] @
     '' Authentication failed. Please check your API configuration.''"

definition msg_rate_limit :: string where
  "msg_rate_limit =
     [CHR 0xE2, CHR 0x8F, CHR 0xB3] @
     '' Rate limit exceeded. Please wait a moment and try again.''"

definition msg_server :: string where
  "msg_server =
     [CHR 0xF0, CHR 0x9F, CHR 0x94, CHR 0xA7] @
     '' Service temporarily unavailable. Please try again later.''"

definition msg_unexpected :: string where
  "msg_unexpected =
     [CHR 0xE2, CHR 0x9A, CHR 0xA0, CHR 0xEF, CHR 0xB8, CHR 0x8F] @
     '' An unexpected error occurred. Please try again.''"

text \<open>The \<^verbatim>\<open>switch (errorType)\<close>.\<close>

definition userFriendlyMessage :: "jsval \<Rightarrow> string" where
  "userFriendlyMessage t =
     (if t = JStr ErrorTypes_TIMEOUT then msg_timeout
      else if t = JStr ErrorTypes_NETWORK then msg_network
      else if t = JStr ErrorTypes_AUTH then msg_auth
      else if t = JStr ErrorTypes_RATE_LIMIT then msg_rate_limit
      else if t = JStr ErrorTypes_SERVER then msg_server
      else msg_unexpected)"

text \<open>
  \<^verbatim>\<open>callPuterAI(prompt, { retries, ... })\<close>: an attempt, and in the \<^verbatim>\<open>catch\<close> either the
  wait and the recursive call with \<^verbatim>\<open>retries - 1\<close>, or the user message, recorded by
  \<^verbatim>\<open>setError\<close> and thrown as a new \<^verbatim>\<open>Error\<close>. The first read of the \<^verbatim>\<open>catch\<close>,
  \<^verbatim>\<open>error.type\<close>, throws when the caught value is \<^verbatim>\<open>undefined\<close> or \<^verbatim>\<open>null\<close>. The
  closure's \<^verbatim>\<open>isPuterLoaded\<close> and the configuration are the same in the recursive call.
  The loading flag is not modelled.
\<close>

function callPuterAI :: "world \<Rightarrow> string \<Rightarrow> int \<Rightarrow> pstate \<Rightarrow> (js_exn + jsval) \<times> pstate" where
  "callPuterAI w prompt retries s =
     (case attempt w prompt (s\<lparr>hook_error := None\<rparr>) of
        (Inr v, s1) \<Rightarrow> (Inr v, s1)
      | (Inl e, s1) \<Rightarrow>
          (case read_exn e ''type'' of
             Inl type_error \<Rightarrow> (Inl type_error, s1)
           | Inr ty \<Rightarrow>
               (if retries > 0 \<and> retryable (errorType_of e)
                then callPuterAI w prompt (retries - 1)
                       (emit (Sleep (PUTER_RETRY_DELAY (config w))) s1)
                else (Inl (ErrorInst ''Error'' (userFriendlyMessage (errorType_of e))),
                      s1\<lparr>hook_error :=
                           Some (errorType_of e, userFriendlyMessage (errorType_of e))\<rparr>))))"
  by pat_completeness auto
termination
  by (relation "measure (\<lambda>(w, prompt, retries, s). nat retries)") auto

declare callPuterAI.simps [simp del]

text \<open>The call with \<^verbatim>\<open>retries\<close> left to its default, \<^verbatim>\<open>ENV_CONFIG.PUTER_MAX_RETRIES\<close>.\<close>

definition callPuterAI_default :: "world \<Rightarrow> string \<Rightarrow> pstate \<Rightarrow> (js_exn + jsval) \<times> pstate" where
  "callPuterAI_default w prompt s = callPuterAI w prompt (PUTER_MAX_RETRIES (config w)) s"

section \<open>The reveal of a response: \<^verbatim>\<open>simulateStreaming\<close>\<close>

text \<open>
  The component state of \<^verbatim>\<open>App\<close> that the reveal and \<^verbatim>\<open>sendMessage\<close> touch. The timers
  and the abort controllers are objects shared through references, so the state holds them
  in stores: \<open>intervals\<close> are the active \<^verbatim>\<open>setInterval\<close> timers, each with the variables
  its callback closes over; \<open>controllers\<close> holds, for every \<^verbatim>\<open>AbortController\<close> created so
  far, whether its signal is aborted; \<open>inflight\<close> lists, for every fetch that is pending,
  the controller whose signal it was given.
\<close>

record message =
  sender :: string
  msg_text :: string

record reveal =
  index :: nat
  words :: "string list"
  fullText :: string

record app =
  messages :: "message list"
  input :: string
  isTyping :: bool
  streamingMessage :: string
  isStreaming :: bool
  apiError :: "string option"
  streamIntervalRef :: "nat option"
  intervals :: "(nat \<times> reveal) list"
  next_timer :: nat
  abortControllerRef :: "nat option"
  controllers :: "bool list"
  inflight :: "nat list"

text \<open>The state of a freshly mounted component; timer ids are positive.\<close>

definition app0 :: app where
  "app0 =
     \<lparr> messages = [], input = [], isTyping = False, streamingMessage = [],
       isStreaming = False, apiError = None, streamIntervalRef = None, intervals = [],
       next_timer = 1, abortControllerRef = None, controllers = [], inflight = [] \<rparr>"

text \<open>\<^verbatim>\<open>s.split(" ")\<close>: the pieces between single spaces; the empty string gives one empty piece.\<close>

fun split_space :: "string \<Rightarrow> string list" where
  "split_space [] = [[]]"
| "split_space (c # cs) =
     (if c = CHR '' '' then [] # split_space cs
      else (case split_space cs of
              [] \<Rightarrow> [[c]]
            | piece # pieces \<Rightarrow> (c # piece) # pieces))"

definition clearInterval :: "nat \<Rightarrow> app \<Rightarrow> app" where
  "clearInterval i s = s\<lparr>intervals := filter (\<lambda>(j, r). j \<noteq> i) (intervals s)\<rparr>"

text \<open>\<^verbatim>\<open>if (ref.current) clearInterval(ref.current)\<close>\<close>

definition clear_ref_interval :: "app \<Rightarrow> app" where
  "clear_ref_interval s =
     (case streamIntervalRef s of None \<Rightarrow> s | Some i \<Rightarrow> clearInterval i s)"

text \<open>
  \<^verbatim>\<open>simulateStreaming(fullText)\<close> up to its return: the old timer of the reference is
  cleared, the buffer is emptied, and a new timer is started whose callback holds
  \<^verbatim>\<open>index = 0\<close> and the words.
\<close>

definition simulateStreaming :: "string \<Rightarrow> app \<Rightarrow> app" where
  "simulateStreaming txt s =
     (let s1 = (clear_ref_interval s)\<lparr>isStreaming := True, streamingMessage := []\<rparr>;
          i = next_timer s1
      in s1\<lparr>streamIntervalRef := Some i,
             intervals := intervals s1 @ [(i, \<lparr>index = 0, words = split_space txt, fullText = txt\<rparr>)],
             next_timer := Suc i\<rparr>)"

text \<open>The updater \<^verbatim>\<open>(prev) => prev + (prev ? " " : "") + word\<close>.\<close>

definition append_word :: "string \<Rightarrow> string \<Rightarrow> string" where
  "append_word prev word = prev @ (if prev \<noteq> [] then '' '' else []) @ word"

text \<open>
  \<^verbatim>\<open>words[k]\<close> as the updater concatenates it: past the end of the array it is
  \<^verbatim>\<open>undefined\<close>, which \<^verbatim>\<open>+\<close> turns into the text \<^verbatim>\<open>undefined\<close>.
\<close>

definition word_at :: "string list \<Rightarrow> nat \<Rightarrow> string" where
  "word_at ws k = (if k < length ws then ws ! k else ''undefined'')"

text \<open>
  One firing of timer \<open>i\<close>: its callback, and the render that follows it. A timer that is
  not active does not fire. The callback hands React the updater, a closure over the
  variable \<^verbatim>\<open>index\<close>, and then runs \<^verbatim>\<open>index++\<close>. React 18 batches the updates made in a
  timer callback and runs a queued updater at the next render, after the callback has
  returned: when the updater reads \<^verbatim>\<open>words[index]\<close>, \<^verbatim>\<open>index\<close> is already incremented.
\<close>

definition fire :: "nat \<Rightarrow> app \<Rightarrow> app" where
  "fire i s =
     (case map_of (intervals s) i of
        None \<Rightarrow> s
      | Some r \<Rightarrow>
          (if index r < length (words r)
           then s\<lparr>streamingMessage :=
                    append_word (streamingMessage s) (word_at (words r) (Suc (index r))),
                  intervals := map (\<lambda>(j, q). if j = i then (j, q\<lparr>index := Suc (index q)\<rparr>) else (j, q))
                                 (intervals s)\<rparr>
           else (clear_ref_interval s)
                  \<lparr>isStreaming := False,
                   messages := messages s @ [\<lparr>sender = ''ai'', msg_text = fullText r\<rparr>],
                   streamingMessage := []\<rparr>))"

text \<open>\<open>n\<close> firings of timer \<open>i\<close>, one after the other.\<close>

fun ticks :: "nat \<Rightarrow> nat \<Rightarrow> app \<Rightarrow> app" where
  "ticks 0 i s = s"
| "ticks (Suc n) i s = ticks n i (fire i s)"

text \<open>
  The component keeps one reveal timer at most, the one \<^verbatim>\<open>streamIntervalRef\<close> holds:
  \<^verbatim>\<open>simulateStreaming\<close> is the only place that starts a timer, and it clears the one of
  the reference first. The states in which every active timer is the reference's:
\<close>

definition timers_owned :: "app \<Rightarrow> bool" where
  "timers_owned s = list_all (\<lambda>(j, r). streamIntervalRef s = Some j) (intervals s)"

section \<open>Sending a prompt: \<^verbatim>\<open>sendMessage\<close> up to its first \<^verbatim>\<open>await\<close>\<close>

text \<open>
  A text is held as the bytes of its UTF-8 encoding. The characters that
  \<^verbatim>\<open>String.prototype.trim\<close> strips are the white space and the line terminators of
  ECMAScript: U+0009 to U+000D, U+0020, U+00A0, U+1680, U+2000 to U+200A, U+2028, U+2029,
  U+202F, U+205F, U+3000 and U+FEFF; here by their encodings.
\<close>

definition white_space :: "string list" where
  "white_space =
     [[CHR 0x09], [CHR 0x0A], [CHR 0x0B], [CHR 0x0C], [CHR 0x0D], [CHR 0x20],
      [CHR 0xC2, CHR 0xA0], [CHR 0xE1, CHR 0x9A, CHR 0x80],
      [CHR 0xE2, CHR 0x80, CHR 0x80], [CHR 0xE2, CHR 0x80, CHR 0x81],
      [CHR 0xE2, CHR 0x80, CHR 0x82], [CHR 0xE2, CHR 0x80, CHR 0x83],
      [CHR 0xE2, CHR 0x80, CHR 0x84], [CHR 0xE2, CHR 0x80, CHR 0x85],
      [CHR 0xE2, CHR 0x80, CHR 0x86], [CHR 0xE2, CHR 0x80, CHR 0x87],
      [CHR 0xE2, CHR 0x80, CHR 0x88], [CHR 0xE2, CHR 0x80, CHR 0x89],
      [CHR 0xE2, CHR 0x80, CHR 0x8A], [CHR 0xE2, CHR 0x80, CHR 0xA8],
      [CHR 0xE2, CHR 0x80, CHR 0xA9], [CHR 0xE2, CHR 0x80, CHR 0xAF],
      [CHR 0xE2, CHR 0x81, CHR 0x9F], [CHR 0xE3, CHR 0x80, CHR 0x80],
      [CHR 0xEF, CHR 0xBB, CHR 0xBF]]"

text \<open>
  The number of bytes of the encoding, among \<open>encs\<close>, that the text starts with; 0 when
  it starts with none.
\<close>

definition ws_prefix :: "string list \<Rightarrow> string \<Rightarrow> nat" where
  "ws_prefix encs s =
     (case filter (\<lambda>ws. ws \<noteq> [] \<and> take (length ws) s = ws) encs of
        [] \<Rightarrow> 0
      | ws # others \<Rightarrow> length ws)"

text \<open>The characters of \<open>encs\<close> at the start of a text are dropped, one at a time.\<close>

fun strip_start :: "string list \<Rightarrow> string \<Rightarrow> string" where
  "strip_start encs [] = []"
| "strip_start encs (c # cs) =
     (if ws_prefix encs (c # cs) = 0 then c # cs
      else strip_start encs (drop (ws_prefix encs (c # cs) - 1) cs))"

text \<open>
  \<^verbatim>\<open>s.trim()\<close>. In UTF-8 the encoding of a character is a suffix of a text only where
  that character ends it, so the end is trimmed on the reversed bytes.
\<close>

definition trim :: "string \<Rightarrow> string" where
  "trim s = rev (strip_start (map rev white_space) (rev (strip_start white_space s)))"

text \<open>
  \<^verbatim>\<open>s.length\<close> counts UTF-16 code units: one for a character encoded in one to three
  bytes, two for one encoded in four; a continuation byte counts nothing.
\<close>

definition code_units :: "char \<Rightarrow> nat" where
  "code_units c =
     (if (of_char c :: nat) < 128 then 1
      else if (of_char c :: nat) < 192 then 0
      else if (of_char c :: nat) < 240 then 1
      else 2)"

definition js_length :: "string \<Rightarrow> nat" where
  "js_length s = sum_list (map code_units s)"

text \<open>\<^verbatim>\<open>new AbortController()\<close>: a fresh object, not aborted.\<close>

definition new_controller :: "app \<Rightarrow> nat \<times> app" where
  "new_controller s = (length (controllers s), s\<lparr>controllers := controllers s @ [False]\<rparr>)"

text \<open>\<^verbatim>\<open>controller.abort()\<close>\<close>

definition abort :: "nat \<Rightarrow> app \<Rightarrow> app" where
  "abort c s = s\<lparr>controllers := (controllers s)[c := True]\<rparr>"


text \<open>
  \<^verbatim>\<open>callDirectAPI\<close> up to \<^verbatim>\<open>await fetch(...)\<close>: it creates its own controller and gives
  that controller's signal to the fetch.
\<close>

definition callDirectAPI_begin :: "world \<Rightarrow> app \<Rightarrow> app" where
  "callDirectAPI_begin w s =
     (case new_controller s of
        (controller, s1) \<Rightarrow>
          (if \<not> key_configured (config w) then s1
           else s1\<lparr>inflight := inflight s1 @ [controller]\<rparr>))"

text \<open>
  \<^verbatim>\<open>callPuterAI\<close> up to its first \<^verbatim>\<open>await\<close>: the SDK call (which takes no signal), the
  direct call, or the mock's delay; without any of them it throws at once.
\<close>

definition callPuterAI_begin :: "world \<Rightarrow> app \<Rightarrow> app" where
  "callPuterAI_begin w s =
     (if sdk_path w then s
      else if key_configured (config w) then callDirectAPI_begin w s
      else s)"

definition sendMessage_begin :: "world \<Rightarrow> app \<Rightarrow> app" where
  "sendMessage_begin w s =
     (if trim (input s) = [] then s
      else if int (js_length (input s)) > MAX_INPUT_LENGTH (config w) then s
      else
        (let s1 = s\<lparr>messages := messages s @ [\<lparr>sender = ''user'', msg_text = input s\<rparr>],
                     input := [], isTyping := True, apiError := None\<rparr>;
             s2 = (case abortControllerRef s1 of None \<Rightarrow> s1 | Some c \<Rightarrow> abort c s1)
         in (case new_controller s2 of
               (c, s3) \<Rightarrow> callPuterAI_begin w (s3\<lparr>abortControllerRef := Some c\<rparr>))))"



text \<open>
  Every fetch is started by \<^verbatim>\<open>callDirectAPI\<close> with the signal of a controller created for
  it, and the reference gets a controller created for it: in the states the component
  reaches, a pending fetch has the signal of a controller that exists and that is not the
  one \<^verbatim>\<open>abortControllerRef\<close> holds.
\<close>

definition fetches_unreferenced :: "app \<Rightarrow> bool" where
  "fetches_unreferenced s =
     (list_all (\<lambda>c. c < length (controllers s) \<and> abortControllerRef s \<noteq> Some c) (inflight s) \<and>
      (case abortControllerRef s of None \<Rightarrow> True | Some c \<Rightarrow> c < length (controllers s)))"

section \<open>The export of the chat: \<^verbatim>\<open>exportChat\<close>\<close>

text \<open>
  The messages of the state carry a sender and a text, and no time. An exported record
  gets its timestamp from \<^verbatim>\<open>new Date()\<close>, evaluated once for each message while the list is
  mapped: \<open>clock k\<close> is the instant (in milliseconds) that the \<open>k\<close>-th \<^verbatim>\<open>new Date()\<close> of the
  export reads. \<^verbatim>\<open>toISOString\<close> prints an instant to the millisecond, so different
  instants print differently; the record keeps the instant.
\<close>

record export_record =
  role :: string
  content :: string
  timestamp :: int

definition exportChat :: "(nat \<Rightarrow> int) \<Rightarrow> message list \<Rightarrow> export_record list" where
  "exportChat clock msgs =
     map (\<lambda>(k, msg). \<lparr>role = sender msg, content = msg_text msg, timestamp = clock k\<rparr>)
       (enumerate 0 msgs)"

section \<open>Worlds and inputs for the examples\<close>

definition example_config :: "string option \<Rightarrow> string \<Rightarrow> env_config" where
  "example_config key environment =
     (ENV_CONFIG empty_env)\<lparr>PUTER_API_KEY := key, ENVIRONMENT := environment\<rparr>"

text \<open>No SDK in the page, a key configured: every call goes to the direct transport.\<close>

definition direct_world :: "(nat \<Rightarrow> fetch_outcome) \<Rightarrow> world" where
  "direct_world replies =
     \<lparr> config = example_config (Some ''secret'') ''Live'', puter_chat = False,
       isPuterLoaded = False, sdk_reply = (\<lambda>i. SdkResolves JUndefined),
       fetch_reply = replies \<rparr>"

text \<open>The SDK loaded and answering \<open>r\<close> every time; the key and the network vary.\<close>

definition sdk_world :: "sdk_outcome \<Rightarrow> string option \<Rightarrow> fetch_outcome \<Rightarrow> world" where
  "sdk_world r key reply =
     \<lparr> config = example_config key ''Live'', puter_chat = True, isPuterLoaded = True,
       sdk_reply = (\<lambda>i. r), fetch_reply = (\<lambda>i. reply) \<rparr>"

text \<open>The rejection of a fetch that could not reach the server, as Chrome words it.\<close>

definition failed_to_fetch :: fetch_outcome where
  "failed_to_fetch = Rejects (ErrorInst ''TypeError'' ''Failed to fetch'')"

text \<open>Neither the SDK nor a key, in the environment of the given name.\<close>

definition bare_world :: "string \<Rightarrow> world" where
  "bare_world environment =
     \<lparr> config = example_config None environment, puter_chat = False, isPuterLoaded = False,
       sdk_reply = (\<lambda>i. SdkResolves JUndefined), fetch_reply = (\<lambda>i. failed_to_fetch) \<rparr>"

text \<open>
  The worlds a claim about the direct transport speaks of: the SDK branch is not taken and
  a key is configured; and the fetch outcomes that the transport classifies as a network
  failure, a rejection with a \<^verbatim>\<open>TypeError\<close> whose message contains \<^verbatim>\<open>fetch\<close>.
\<close>

definition direct_path :: "world \<Rightarrow> bool" where
  "direct_path w = (\<not> sdk_path w \<and> key_configured (config w))"

fun network_failure :: "fetch_outcome \<Rightarrow> bool" where
  "network_failure (Rejects (ErrorInst n m)) = (n = ''TypeError'' \<and> str_includes m ''fetch'')"
| "network_failure r = False"

text \<open>A conversation of one message, with nothing in progress.\<close>

definition one_message_app :: app where
  "one_message_app = app0\<lparr>messages := [\<lparr>sender = ''user'', msg_text = ''name three letters''\<rparr>]\<rparr>"


text \<open>A conversation of two messages.\<close>

definition two_messages :: "message list" where
  "two_messages =
     [\<lparr>sender = ''user'', msg_text = ''hi''\<rparr>, \<lparr>sender = ''ai'', msg_text = ''Hello!''\<rparr>]"

text \<open>An SDK response of the structured shape, with the given content.\<close>

definition with_content :: "jsval \<Rightarrow> jsval" where
  "with_content c = JObj [(''message'', JObj [(''role'', JStr ''assistant''), (''content'', c)])]"

section \<open>Properties of the pipeline\<close>

lemmas ErrorTypes_defs =
  ErrorTypes_NETWORK_def ErrorTypes_TIMEOUT_def ErrorTypes_AUTH_def
  ErrorTypes_RATE_LIMIT_def ErrorTypes_SERVER_def ErrorTypes_UNKNOWN_def

lemma fetches_emit [simp]:
  "fetches (trace (emit (Fetch p) s)) = Suc (fetches (trace s))"
  "fetches (trace (emit (Sleep d) s)) = fetches (trace s)"
  "fetches (trace (emit (SdkCall p) s)) = fetches (trace s)"
  by (simp_all add: fetches_def emit_def)

lemma trace_clear_error [simp]: "trace (s\<lparr>hook_error := x\<rparr>) = trace s"
  by simp

lemma ErrorTypes_nonempty [simp]:
  "ErrorTypes_NETWORK \<noteq> []" "ErrorTypes_TIMEOUT \<noteq> []" "ErrorTypes_AUTH \<noteq> []"
  "ErrorTypes_RATE_LIMIT \<noteq> []" "ErrorTypes_SERVER \<noteq> []" "ErrorTypes_UNKNOWN \<noteq> []"
  by (simp_all add: ErrorTypes_defs)

lemma errorType_typed [simp]: "ty \<noteq> [] \<Longrightarrow> errorType_of (typed_error ty m st) = JStr ty"
  by (simp add: errorType_of_def typed_error_def js_or_def)

lemma read_exn_value: "\<not> exn_nullish e \<Longrightarrow> read_exn e k = Inr (exn_prop e k)"
  by (cases e) simp_all

lemma typed_error_not_nullish [simp]: "\<not> exn_nullish (typed_error ty m st)"
  by (simp add: typed_error_def)

lemma nullish_read_not_nullish [simp]: "\<not> exn_nullish (nullish_read v k)"
  by (simp add: nullish_read_def)

lemma catch_network:
  "network_failure (Rejects e) \<Longrightarrow>
   callDirectAPI_catch e = typed_error ErrorTypes_NETWORK (JStr ''Network connection failed'') 0"
  by (cases e) (auto simp: callDirectAPI_catch_def)

text \<open>Neither \<^verbatim>\<open>callDirectAPI\<close> nor an attempt throws \<^verbatim>\<open>undefined\<close> or \<^verbatim>\<open>null\<close>.\<close>

lemma catch_not_nullish: "\<not> exn_nullish (callDirectAPI_catch e)"
  by (cases e) (simp_all add: callDirectAPI_catch_def)

lemma callDirectAPI_not_nullish: "callDirectAPI w p s = (Inl e, s1) \<Longrightarrow> \<not> exn_nullish e"
  by (auto simp: callDirectAPI_def catch_not_nullish split: prod.splits sum.splits)

lemma read_exn_throws: "read_exn x k = Inl e \<Longrightarrow> \<not> exn_nullish e"
  by (cases x) (auto split: if_splits)

lemma attempt_not_nullish: "attempt w p s = (Inl e, s1) \<Longrightarrow> \<not> exn_nullish e"
  by (auto simp: attempt_def not_configured_error_def
      dest: callDirectAPI_not_nullish read_exn_throws split: if_splits sum.splits)

lemma attempt_direct: "direct_path w \<Longrightarrow> attempt w p s = callDirectAPI w p s"
  by (simp add: attempt_def direct_path_def)

lemma callDirectAPI_network:
  assumes "key_configured (config w)" "network_failure (fetch_reply w (fetches (trace s)))"
  shows "callDirectAPI w p s =
     (Inl (typed_error ErrorTypes_NETWORK (JStr ''Network connection failed'') 0), emit (Fetch p) s)"
proof -
  obtain e where e: "fetch_reply w (fetches (trace s)) = Rejects e"
    using assms(2) by (cases "fetch_reply w (fetches (trace s))") auto
  with assms show ?thesis
    by (simp add: callDirectAPI_def callDirectAPI_try_def catch_network)
qed

lemma retry_step:
  assumes "attempt w p (s\<lparr>hook_error := None\<rparr>) = (Inl e, s1)" "0 < r" "retryable (errorType_of e)"
  shows "callPuterAI w p r s = callPuterAI w p (r - 1) (emit (Sleep (PUTER_RETRY_DELAY (config w))) s1)"
  using assms attempt_not_nullish [OF assms(1)]
  by (subst callPuterAI.simps) (simp add: read_exn_value)

lemma final_step:
  assumes "attempt w p (s\<lparr>hook_error := None\<rparr>) = (Inl e, s1)" "\<not> (0 < r \<and> retryable (errorType_of e))"
  shows "callPuterAI w p r s = (Inl (ErrorInst ''Error'' (userFriendlyMessage (errorType_of e))),
                 s1\<lparr>hook_error := Some (errorType_of e, userFriendlyMessage (errorType_of e))\<rparr>)"
  using assms attempt_not_nullish [OF assms(1)]
  by (subst callPuterAI.simps) (auto simp: read_exn_value)

lemma retryable_network [simp]: "retryable (JStr ErrorTypes_NETWORK)"
  by (simp add: retryable_def)

lemma not_retryable_auth [simp]: "\<not> retryable (JStr ErrorTypes_AUTH)"
  by (simp add: retryable_def ErrorTypes_defs)

lemma network_exhausts:
  assumes d: "direct_path w" and net: "\<And>i. network_failure (fetch_reply w i)"
  shows "callPuterAI w p (int n) s =
     (Inl (ErrorInst ''Error'' msg_network),
      \<lparr> trace = trace s @ concat (replicate n [Fetch p, Sleep (PUTER_RETRY_DELAY (config w))]) @ [Fetch p],
        hook_error = Some (JStr ErrorTypes_NETWORK, msg_network) \<rparr>)"
proof (induction n arbitrary: s)
  case 0
  have a: "attempt w p (s\<lparr>hook_error := None\<rparr>) =
      (Inl (typed_error ErrorTypes_NETWORK (JStr ''Network connection failed'') 0), emit (Fetch p) (s\<lparr>hook_error := None\<rparr>))"
    using d net by (simp add: attempt_direct callDirectAPI_network direct_path_def)
  show ?case
    by (simp add: final_step [OF a] userFriendlyMessage_def emit_def) (simp add: ErrorTypes_defs)
next
  case (Suc n)
  have a: "attempt w p (s\<lparr>hook_error := None\<rparr>) =
      (Inl (typed_error ErrorTypes_NETWORK (JStr ''Network connection failed'') 0), emit (Fetch p) (s\<lparr>hook_error := None\<rparr>))"
    using d net by (simp add: attempt_direct callDirectAPI_network direct_path_def)
  have "callPuterAI w p (int (Suc n)) s = callPuterAI w p (int n)
          (emit (Sleep (PUTER_RETRY_DELAY (config w))) (emit (Fetch p) (s\<lparr>hook_error := None\<rparr>)))"
    using retry_step [OF a, of "int (Suc n)"] by simp
  then show ?case
    by (simp add: Suc.IH emit_def)
qed


lemma catch_nullish_read [simp]:
  "callDirectAPI_catch (nullish_read v ''error'') = nullish_read v ''error''"
  by (simp add: callDirectAPI_catch_def nullish_read_def)

lemma catch_typed [simp]: "callDirectAPI_catch (typed_error ty m st) = typed_error ty m st"
  by (simp add: callDirectAPI_catch_def typed_error_def)

lemma errorType_ErrorInst [simp]: "errorType_of (ErrorInst n m) = JStr ErrorTypes_UNKNOWN"
  by (simp add: errorType_of_def js_or_def)

lemma errorType_nullish_read [simp]: "errorType_of (nullish_read v k) = JStr ErrorTypes_UNKNOWN"
  by (simp add: nullish_read_def)

lemma typed_fields [simp]:
  "exn_prop (typed_error ty m st) ''message'' = m"
  "exn_prop (typed_error ty m st) ''status'' = JNum (int st)"
  by (simp_all add: typed_error_def)

lemma callDirectAPI_not_ok:
  assumes "key_configured (config w)" "fetch_reply w (fetches (trace s)) = Responds st body"
    "\<not> response_ok st"
  shows "callDirectAPI w p s =
     (Inl (callDirectAPI_catch (status_error st (case body of Inl e \<Rightarrow> JObj [] | Inr d \<Rightarrow> d))),
      emit (Fetch p) s)"
  using assms by (simp add: callDirectAPI_def callDirectAPI_try_def)

lemma status_error_other:
  assumes "st \<noteq> 401" "st \<noteq> 429" "st \<noteq> 503" "st \<noteq> 504"
  shows "errorType_of (callDirectAPI_catch (status_error st d)) = JStr ErrorTypes_UNKNOWN"
  using assms by (simp add: status_error_def)

text \<open>
  C2. With a key configured, a response of \<^verbatim>\<open>callDirectAPI\<close>'s fetch whose status is not in
  200..299 makes the call throw, after that one fetch: for 401 an authentication error, for
  429 a rate-limit error, for 503 and 504 a server error, each with its fixed message and
  the status, whatever the body is; for any other status an error whose kind is unknown,
  carrying the body's \<^verbatim>\<open>error\<close> field as its message when the body has a truthy one, and
  \<^verbatim>\<open>API Error: <status>\<close> when the body is an object without one or is not JSON.
\<close>

theorem callDirectAPI_status_mapping:
  assumes "key_configured (config w)"
    and "fetch_reply w (fetches (trace s)) = Responds st body"
    and "\<not> response_ok st"
  shows "\<exists>e. callDirectAPI w p s = (Inl e, emit (Fetch p) s) \<and>
           (st = 401 \<longrightarrow> errorType_of e = JStr ErrorTypes_AUTH \<and>
              exn_prop e ''message'' = JStr ''Invalid API key'' \<and>
              exn_prop e ''status'' = JNum 401) \<and>
           (st = 429 \<longrightarrow> errorType_of e = JStr ErrorTypes_RATE_LIMIT \<and>
              exn_prop e ''message'' = JStr ''Rate limit exceeded'' \<and>
              exn_prop e ''status'' = JNum 429) \<and>
           (st = 503 \<or> st = 504 \<longrightarrow> errorType_of e = JStr ErrorTypes_SERVER \<and>
              exn_prop e ''message'' = JStr ''Service unavailable'' \<and>
              exn_prop e ''status'' = JNum (int st)) \<and>
           (st \<noteq> 401 \<and> st \<noteq> 429 \<and> st \<noteq> 503 \<and> st \<noteq> 504 \<longrightarrow>
              errorType_of e = JStr ErrorTypes_UNKNOWN \<and>
              (\<forall>d. body = Inr d \<and> truthy (get_prop d ''error'') \<longrightarrow>
                 exn_prop e ''message'' = get_prop d ''error'' \<and>
                 exn_prop e ''status'' = JNum (int st)) \<and>
              (\<forall>d. body = Inr d \<and> \<not> nullish d \<and> \<not> truthy (get_prop d ''error'') \<longrightarrow>
                 exn_prop e ''message'' = JStr (''API Error: '' @ string_of_nat st)) \<and>
              (\<forall>x. body = Inl x \<longrightarrow>
                 exn_prop e ''message'' = JStr (''API Error: '' @ string_of_nat st)))"
proof -
  let ?d = "case body of Inl e \<Rightarrow> JObj [] | Inr d \<Rightarrow> d"
  let ?e = "callDirectAPI_catch (status_error st ?d)"
  have run: "callDirectAPI w p s = (Inl ?e, emit (Fetch p) s)"
    using assms by (rule callDirectAPI_not_ok)
  have a: "st = 401 \<Longrightarrow> ?e = typed_error ErrorTypes_AUTH (JStr ''Invalid API key'') 401"
    by (simp add: status_error_def)
  have b: "st = 429 \<Longrightarrow> ?e = typed_error ErrorTypes_RATE_LIMIT (JStr ''Rate limit exceeded'') 429"
    by (simp add: status_error_def)
  have c: "st = 503 \<or> st = 504 \<Longrightarrow>
      ?e = typed_error ErrorTypes_SERVER (JStr ''Service unavailable'') st"
    by (auto simp: status_error_def)
  have d1: "st \<noteq> 401 \<and> st \<noteq> 429 \<and> st \<noteq> 503 \<and> st \<noteq> 504 \<Longrightarrow>
      errorType_of ?e = JStr ErrorTypes_UNKNOWN"
    by (simp add: status_error_other)
  have d2: "st \<noteq> 401 \<and> st \<noteq> 429 \<and> st \<noteq> 503 \<and> st \<noteq> 504 \<Longrightarrow> \<not> nullish ?d \<Longrightarrow>
      ?e = typed_error ErrorTypes_UNKNOWN
             (js_or (get_prop ?d ''error'') (JStr (''API Error: '' @ string_of_nat st))) st"
    by (simp add: status_error_def)
  have nn: "\<And>d. truthy (get_prop d ''error'') \<Longrightarrow> \<not> nullish d"
    by (case_tac d) simp_all
  show ?thesis
  proof (intro exI conjI impI allI)
    show "callDirectAPI w p s = (Inl ?e, emit (Fetch p) s)" by (rule run)
  qed (use a b c d1 d2 nn in \<open>auto simp: js_or_def\<close>)
qed

lemma callDirectAPI_401:
  assumes "key_configured (config w)" "fetch_reply w (fetches (trace s)) = Responds 401 body"
  shows "callDirectAPI w p s =
     (Inl (typed_error ErrorTypes_AUTH (JStr ''Invalid API key'') 401), emit (Fetch p) s)"
  using assms by (simp add: callDirectAPI_not_ok response_ok_def status_error_def)

lemma userFriendlyMessage_simps [simp]:
  "userFriendlyMessage (JStr ErrorTypes_NETWORK) = msg_network"
  "userFriendlyMessage (JStr ErrorTypes_AUTH) = msg_auth"
  "userFriendlyMessage (JStr ErrorTypes_UNKNOWN) = msg_unexpected"
  by (simp_all add: userFriendlyMessage_def ErrorTypes_defs)

lemma default_retry_delay: "PUTER_RETRY_DELAY (ENV_CONFIG empty_env) = 1000"
  by (simp add: ENV_CONFIG_def empty_env_def parsed_or_def)

lemma replicate3: "concat (replicate 3 [a, b]) = [a, b, a, b, a, b]"
  by (simp add: numeral_3_eq_3)

text \<open>
  C1. When an attempt of \<^verbatim>\<open>callPuterAI\<close> fails with an error of kind timeout, network,
  server or rate limit and \<^verbatim>\<open>retries\<close> is greater than 0, the pipeline waits
  \<^verbatim>\<open>PUTER_RETRY_DELAY\<close> milliseconds (the same delay at every retry; 1000 when the variable
  is not set) and calls itself with \<^verbatim>\<open>retries - 1\<close>. An error of kind authentication is
  not retried, whatever \<^verbatim>\<open>retries\<close> is. So with 3 retries and every fetch failing as a
  network failure there are exactly 4 fetches, with the delay between them, and the error
  thrown carries the network user message; and a 401 at the first fetch gives 1 fetch and
  the authentication user message.
\<close>

theorem callPuterAI_retry_policy:
  "(\<forall>w p r s e s1.
      attempt w p (s\<lparr>hook_error := None\<rparr>) = (Inl e, s1) \<and> 0 < r \<and>
      errorType_of e \<in> {JStr ErrorTypes_TIMEOUT, JStr ErrorTypes_NETWORK,
                         JStr ErrorTypes_SERVER, JStr ErrorTypes_RATE_LIMIT} \<longrightarrow>
      callPuterAI w p r s =
        callPuterAI w p (r - 1) (emit (Sleep (PUTER_RETRY_DELAY (config w))) s1)) \<and>
   (\<forall>w p r s e s1.
      attempt w p (s\<lparr>hook_error := None\<rparr>) = (Inl e, s1) \<and>
      errorType_of e = JStr ErrorTypes_AUTH \<longrightarrow>
      callPuterAI w p r s =
        (Inl (ErrorInst ''Error'' msg_auth),
         s1\<lparr>hook_error := Some (JStr ErrorTypes_AUTH, msg_auth)\<rparr>)) \<and>
   PUTER_RETRY_DELAY (ENV_CONFIG empty_env) = 1000 \<and>
   (\<forall>w p s.
      direct_path w \<and> (\<forall>i. network_failure (fetch_reply w i)) \<longrightarrow>
      callPuterAI w p 3 s =
        (Inl (ErrorInst ''Error'' msg_network),
         \<lparr> trace = trace s @
             [Fetch p, Sleep (PUTER_RETRY_DELAY (config w)),
              Fetch p, Sleep (PUTER_RETRY_DELAY (config w)),
              Fetch p, Sleep (PUTER_RETRY_DELAY (config w)),
              Fetch p],
           hook_error = Some (JStr ErrorTypes_NETWORK, msg_network) \<rparr>)) \<and>
   (\<forall>w p r s body.
      direct_path w \<and> fetch_reply w (fetches (trace s)) = Responds 401 body \<longrightarrow>
      callPuterAI w p r s =
        (Inl (ErrorInst ''Error'' msg_auth),
         \<lparr> trace = trace s @ [Fetch p],
           hook_error = Some (JStr ErrorTypes_AUTH, msg_auth) \<rparr>))"
proof (intro conjI allI impI)
  fix w p and r :: int and s e s1
  assume "attempt w p (s\<lparr>hook_error := None\<rparr>) = (Inl e, s1) \<and> 0 < r \<and>
      errorType_of e \<in> {JStr ErrorTypes_TIMEOUT, JStr ErrorTypes_NETWORK,
                         JStr ErrorTypes_SERVER, JStr ErrorTypes_RATE_LIMIT}"
  then show "callPuterAI w p r s =
        callPuterAI w p (r - 1) (emit (Sleep (PUTER_RETRY_DELAY (config w))) s1)"
    by (intro retry_step) (auto simp: retryable_def)
next
  fix w p and r :: int and s e s1
  assume a: "attempt w p (s\<lparr>hook_error := None\<rparr>) = (Inl e, s1) \<and>
      errorType_of e = JStr ErrorTypes_AUTH"
  then have "\<not> (0 < r \<and> retryable (errorType_of e))" by simp
  with a show "callPuterAI w p r s =
        (Inl (ErrorInst ''Error'' msg_auth),
         s1\<lparr>hook_error := Some (JStr ErrorTypes_AUTH, msg_auth)\<rparr>)"
    by (simp add: final_step)
next
  show "PUTER_RETRY_DELAY (ENV_CONFIG empty_env) = 1000" by (rule default_retry_delay)
next
  fix w p and s :: pstate
  assume "direct_path w \<and> (\<forall>i. network_failure (fetch_reply w i))"
  then have "callPuterAI w p (int 3) s =
     (Inl (ErrorInst ''Error'' msg_network),
      \<lparr> trace = trace s @ concat (replicate 3 [Fetch p, Sleep (PUTER_RETRY_DELAY (config w))]) @ [Fetch p],
        hook_error = Some (JStr ErrorTypes_NETWORK, msg_network) \<rparr>)"
    by (intro network_exhausts) simp_all
  then show "callPuterAI w p 3 s =
        (Inl (ErrorInst ''Error'' msg_network),
         \<lparr> trace = trace s @
             [Fetch p, Sleep (PUTER_RETRY_DELAY (config w)),
              Fetch p, Sleep (PUTER_RETRY_DELAY (config w)),
              Fetch p, Sleep (PUTER_RETRY_DELAY (config w)),
              Fetch p],
           hook_error = Some (JStr ErrorTypes_NETWORK, msg_network) \<rparr>)"
    by (simp add: replicate3)
next
  fix w p and r :: int and s :: pstate and body
  assume h: "direct_path w \<and> fetch_reply w (fetches (trace s)) = Responds 401 body"
  then have "attempt w p (s\<lparr>hook_error := None\<rparr>) =
      (Inl (typed_error ErrorTypes_AUTH (JStr ''Invalid API key'') 401),
       emit (Fetch p) (s\<lparr>hook_error := None\<rparr>))"
    by (simp add: attempt_direct callDirectAPI_401 direct_path_def)
  from final_step [OF this, of r]
  show "callPuterAI w p r s =
        (Inl (ErrorInst ''Error'' msg_auth),
         \<lparr> trace = trace s @ [Fetch p],
           hook_error = Some (JStr ErrorTypes_AUTH, msg_auth) \<rparr>)"
    by (simp add: emit_def)
qed

lemma direct_world_direct [simp]: "direct_path (direct_world replies)"
  by (simp add: direct_path_def direct_world_def sdk_path_def key_configured_def
      example_config_def)

lemma direct_world_simps [simp]:
  "fetch_reply (direct_world replies) = replies"
  "PUTER_RETRY_DELAY (config (direct_world replies)) = 1000"
  by (simp_all add: direct_world_def example_config_def ENV_CONFIG_def empty_env_def
      parsed_or_def)

theorem callPuterAI_retry_policy_witness:
  "callPuterAI (direct_world (\<lambda>i. failed_to_fetch)) ''hello'' 3 pstate0 =
     callPuterAI (direct_world (\<lambda>i. failed_to_fetch)) ''hello'' 2
       \<lparr> trace = [Fetch ''hello'', Sleep 1000], hook_error = None \<rparr> \<and>
   callPuterAI (direct_world (\<lambda>i. failed_to_fetch)) ''hello'' 3 pstate0 =
     (Inl (ErrorInst ''Error'' msg_network),
      \<lparr> trace = [Fetch ''hello'', Sleep 1000, Fetch ''hello'', Sleep 1000,
                 Fetch ''hello'', Sleep 1000, Fetch ''hello''],
        hook_error = Some (JStr ErrorTypes_NETWORK, msg_network) \<rparr>) \<and>
   callPuterAI (direct_world (\<lambda>i. Responds 401 (Inr (JObj [])))) ''hello'' 3 pstate0 =
     (Inl (ErrorInst ''Error'' msg_auth),
      \<lparr> trace = [Fetch ''hello''],
        hook_error = Some (JStr ErrorTypes_AUTH, msg_auth) \<rparr>) \<and>
   callPuterAI (bare_world ''Live'') ''hello'' 3 pstate0 =
     (Inl (ErrorInst ''Error'' msg_auth),
      \<lparr> trace = [], hook_error = Some (JStr ErrorTypes_AUTH, msg_auth) \<rparr>)"
proof -
  let ?w = "direct_world (\<lambda>i. failed_to_fetch)"
  let ?a = "direct_world (\<lambda>i. Responds 401 (Inr (JObj [])))"
  have net: "direct_path ?w \<and> (\<forall>i. network_failure (fetch_reply ?w i))"
    by (simp add: failed_to_fetch_def)
  have key: "key_configured (config ?w)"
    using direct_world_direct [of "\<lambda>i. failed_to_fetch"] by (simp add: direct_path_def)
  have att: "attempt ?w ''hello'' (pstate0\<lparr>hook_error := None\<rparr>) =
      (Inl (typed_error ErrorTypes_NETWORK (JStr ''Network connection failed'') 0),
       \<lparr> trace = [Fetch ''hello''], hook_error = None \<rparr>)"
    using net key
    by (simp add: attempt_direct callDirectAPI_network pstate0_def emit_def)
  have auth: "direct_path ?a \<and>
      fetch_reply ?a (fetches (trace pstate0)) = Responds 401 (Inr (JObj []))"
    by simp
  note pol = callPuterAI_retry_policy
  have one: "callPuterAI ?w ''hello'' 3 pstate0 =
      callPuterAI ?w ''hello'' (3 - 1)
        (emit (Sleep (PUTER_RETRY_DELAY (config ?w)))
           \<lparr> trace = [Fetch ''hello''], hook_error = None \<rparr>)"
    using pol [THEN conjunct1, rule_format, of ?w "''hello''" pstate0 _ _ 3] att
    by simp
  have four: "callPuterAI ?w ''hello'' 3 pstate0 =
      (Inl (ErrorInst ''Error'' msg_network),
       \<lparr> trace = trace pstate0 @
           [Fetch ''hello'', Sleep (PUTER_RETRY_DELAY (config ?w)),
            Fetch ''hello'', Sleep (PUTER_RETRY_DELAY (config ?w)),
            Fetch ''hello'', Sleep (PUTER_RETRY_DELAY (config ?w)),
            Fetch ''hello''],
         hook_error = Some (JStr ErrorTypes_NETWORK, msg_network) \<rparr>)"
    using pol [THEN conjunct2, THEN conjunct2, THEN conjunct2, THEN conjunct1, rule_format,
        of ?w "''hello''" pstate0] net
    by blast
  have once: "callPuterAI ?a ''hello'' 3 pstate0 =
      (Inl (ErrorInst ''Error'' msg_auth),
       \<lparr> trace = trace pstate0 @ [Fetch ''hello''],
         hook_error = Some (JStr ErrorTypes_AUTH, msg_auth) \<rparr>)"
    using pol [THEN conjunct2, THEN conjunct2, THEN conjunct2, THEN conjunct2, rule_format,
        of ?a pstate0 "Inr (JObj [])" "''hello''" 3] auth
    by blast
  have bare: "attempt (bare_world ''Live'') ''hello'' (pstate0\<lparr>hook_error := None\<rparr>) =
      (Inl not_configured_error, pstate0) \<and>
      errorType_of not_configured_error = JStr ErrorTypes_AUTH"
    by (simp add: attempt_def bare_world_def sdk_path_def key_configured_def
        example_config_def pstate0_def not_configured_error_def errorType_of_def js_or_def)
  have never: "callPuterAI (bare_world ''Live'') ''hello'' 3 pstate0 =
      (Inl (ErrorInst ''Error'' msg_auth),
       pstate0\<lparr>hook_error := Some (JStr ErrorTypes_AUTH, msg_auth)\<rparr>)"
    using pol [THEN conjunct2, THEN conjunct1, rule_format,
        of "bare_world ''Live''" "''hello''" pstate0 not_configured_error pstate0 3] bare
    by blast
  from one four once never show ?thesis
    by (simp add: emit_def pstate0_def)
qed

theorem callDirectAPI_status_mapping_witness:
  "(\<exists>e. callDirectAPI
          (direct_world (\<lambda>i. Responds 401 (Inr (JObj [(''error'', JStr ''rate limited'')]))))
          ''hello'' pstate0 = (Inl e, emit (Fetch ''hello'') pstate0) \<and>
        errorType_of e = JStr ErrorTypes_AUTH) \<and>
   (\<exists>e. callDirectAPI
          (direct_world (\<lambda>i. Responds 500 (Inr (JObj [(''error'', JStr ''database down'')]))))
          ''hello'' pstate0 = (Inl e, emit (Fetch ''hello'') pstate0) \<and>
        errorType_of e = JStr ErrorTypes_UNKNOWN \<and>
        exn_prop e ''message'' = JStr ''database down'')"
proof -
  let ?b1 = "Inr (JObj [(''error'', JStr ''rate limited'')]) :: js_exn + jsval"
  let ?b2 = "Inr (JObj [(''error'', JStr ''database down'')]) :: js_exn + jsval"
  have key: "\<And>f. key_configured (config (direct_world f))"
    using direct_world_direct by (simp add: direct_path_def)
  have "\<not> response_ok 401" "\<not> response_ok 500"
    by (simp_all add: response_ok_def)
  note m1 = callDirectAPI_status_mapping
    [of "direct_world (\<lambda>i. Responds 401 ?b1)" pstate0 401 ?b1 "''hello''",
     OF key _ \<open>\<not> response_ok 401\<close>]
  note m2 = callDirectAPI_status_mapping
    [of "direct_world (\<lambda>i. Responds 500 ?b2)" pstate0 500 ?b2 "''hello''",
     OF key _ \<open>\<not> response_ok 500\<close>]
  have one: "\<exists>e. callDirectAPI (direct_world (\<lambda>i. Responds 401 ?b1)) ''hello'' pstate0 =
        (Inl e, emit (Fetch ''hello'') pstate0) \<and> errorType_of e = JStr ErrorTypes_AUTH"
    using m1 by auto
  have two: "\<exists>e. callDirectAPI (direct_world (\<lambda>i. Responds 500 ?b2)) ''hello'' pstate0 =
        (Inl e, emit (Fetch ''hello'') pstate0) \<and> errorType_of e = JStr ErrorTypes_UNKNOWN \<and>
        exn_prop e ''message'' = JStr ''database down''"
    using m2 by auto
  from one two show ?thesis by blast
qed

text \<open>
  C5. Called without a configured key, \<^verbatim>\<open>callDirectAPI\<close> throws before any fetch (the
  trace is unchanged), but what it throws is a plain \<^verbatim>\<open>Error\<close> with no \<^verbatim>\<open>type\<close>: the
  pipeline classifies it as unknown, not as an authentication error, and shows the
  message for an unexpected error. The branch of \<^verbatim>\<open>callPuterAI\<close> for the same condition
  throws the same message with the authentication type.
\<close>

theorem callDirectAPI_without_key:
  assumes "\<not> key_configured (config w)"
  shows "\<exists>e. callDirectAPI w p s = (Inl e, s) \<and>
           exn_prop e ''message'' = JStr ''API key is not configured'' \<and>
           exn_prop e ''message'' = exn_prop not_configured_error ''message'' \<and>
           errorType_of not_configured_error = JStr ErrorTypes_AUTH \<and>
           errorType_of e = JStr ErrorTypes_UNKNOWN \<and>
           errorType_of e \<noteq> JStr ErrorTypes_AUTH \<and>
           userFriendlyMessage (errorType_of e) = msg_unexpected"
proof -
  have "callDirectAPI w p s = (Inl (ErrorInst ''Error'' ''API key is not configured''), s)"
    using assms by (simp add: callDirectAPI_def callDirectAPI_try_def callDirectAPI_catch_def)
  moreover have "errorType_of not_configured_error = JStr ErrorTypes_AUTH"
    by (simp add: not_configured_error_def errorType_of_def js_or_def)
  moreover have "JStr ErrorTypes_UNKNOWN \<noteq> JStr ErrorTypes_AUTH"
    by (simp add: ErrorTypes_defs)
  ultimately show ?thesis
    by (simp add: not_configured_error_def)
qed

lemma sdk_world_simps [simp]:
  "sdk_path (sdk_world r key reply)"
  "key_configured (config (sdk_world r key reply)) = (case key of None \<Rightarrow> False | Some k \<Rightarrow> k \<noteq> [])"
  "sdk_reply (sdk_world r key reply) i = r"
  "fetch_reply (sdk_world r key reply) i = reply"
  by (simp_all add: sdk_world_def sdk_path_def key_configured_def example_config_def
      ENV_CONFIG_def empty_env_def)

theorem callDirectAPI_without_key_witness:
  "\<exists>e. callDirectAPI (sdk_world (SdkRejects (ErrorInst ''Error'' ''busy'')) None failed_to_fetch)
          ''hello'' (emit (SdkCall ''hello'') pstate0) =
          (Inl e, emit (SdkCall ''hello'') pstate0) \<and>
        errorType_of e = JStr ErrorTypes_UNKNOWN \<and>
        userFriendlyMessage (errorType_of e) = msg_unexpected"
proof -
  have "\<not> key_configured
      (config (sdk_world (SdkRejects (ErrorInst ''Error'' ''busy'')) None failed_to_fetch))"
    by simp
  from callDirectAPI_without_key [OF this] show ?thesis
    by blast
qed

text \<open>
  The run in which this shows: the SDK is loaded and its call fails, no key is configured.
  The user is told of an unexpected error.
\<close>

lemma sdk_fallback_without_key:
  "callPuterAI (sdk_world (SdkRejects (ErrorInst ''Error'' ''busy'')) None failed_to_fetch)
     ''hello'' 3 pstate0 =
   (Inl (ErrorInst ''Error'' msg_unexpected),
    \<lparr> trace = [SdkCall ''hello''],
      hook_error = Some (JStr ErrorTypes_UNKNOWN, msg_unexpected) \<rparr>)"
  by code_simp

lemma sdk_attempt_hook [simp]: "sdk_attempt w (s\<lparr>hook_error := x\<rparr>) = sdk_attempt w s"
  by (simp add: sdk_attempt_def)

lemma not_retryable_unknown [simp]: "\<not> retryable (JStr ErrorTypes_UNKNOWN)"
  by (simp add: retryable_def ErrorTypes_defs)

text \<open>
  Where the SDK's error is a value whose \<^verbatim>\<open>message\<close> can be read, the attempt goes on to
  the direct call, whatever the error was.
\<close>

lemma attempt_falls_through:
  assumes "sdk_path w" and "sdk_attempt w s = Inl sdkError" and "\<not> exn_nullish sdkError"
  shows "attempt w p s = callDirectAPI w p (emit (SdkCall p) s)"
  using assms by (simp add: attempt_def read_exn_value)

text \<open>Where the SDK rejects with \<^verbatim>\<open>undefined\<close> or \<^verbatim>\<open>null\<close>, the attempt ends in the warning.\<close>

lemma attempt_nullish_rejection:
  assumes "sdk_path w" and "sdk_reply w (sdk_calls (trace s)) = SdkRejects (Thrown v)"
    and "nullish v"
  shows "attempt w p s = (Inl (nullish_read v ''message''), emit (SdkCall p) s)"
  using assms by (simp add: attempt_def sdk_attempt_def)

text \<open>
  C3. With the SDK branch taken and the SDK call failing with an error whose message can
  be read (an \<^verbatim>\<open>Error\<close>, an object, the \<^verbatim>\<open>Error\<close> for an unreadable response), the pipeline
  goes on to \<^verbatim>\<open>callDirectAPI\<close>: what the direct call returns is what the pipeline returns,
  and when the direct call fails for good the message shown is the one for the direct
  call's error. But when the SDK promise rejects with \<^verbatim>\<open>undefined\<close> or \<^verbatim>\<open>null\<close>, the inner
  \<^verbatim>\<open>catch\<close> throws on \<^verbatim>\<open>sdkError.message\<close>: the pipeline makes no fetch and no retry, whatever
  the network would answer and whatever \<^verbatim>\<open>retries\<close> is, and fails with the message for an
  unexpected error.
\<close>

theorem sdk_rejection_without_reason:
  "(\<forall>w p r s sdkError v s'.
      sdk_path w \<and> sdk_attempt w s = Inl sdkError \<and> \<not> exn_nullish sdkError \<and>
      callDirectAPI w p (emit (SdkCall p) (s\<lparr>hook_error := None\<rparr>)) = (Inr v, s') \<longrightarrow>
      callPuterAI w p r s = (Inr v, s')) \<and>
   (\<forall>w p r s sdkError e s'.
      sdk_path w \<and> sdk_attempt w s = Inl sdkError \<and> \<not> exn_nullish sdkError \<and>
      callDirectAPI w p (emit (SdkCall p) (s\<lparr>hook_error := None\<rparr>)) = (Inl e, s') \<and>
      \<not> (0 < r \<and> retryable (errorType_of e)) \<longrightarrow>
      callPuterAI w p r s =
        (Inl (ErrorInst ''Error'' (userFriendlyMessage (errorType_of e))),
         s'\<lparr>hook_error := Some (errorType_of e, userFriendlyMessage (errorType_of e))\<rparr>)) \<and>
   (\<forall>w p r s v.
      sdk_path w \<and> sdk_reply w (sdk_calls (trace s)) = SdkRejects (Thrown v) \<and> nullish v \<longrightarrow>
      callPuterAI w p r s =
        (Inl (ErrorInst ''Error'' msg_unexpected),
         \<lparr> trace = trace s @ [SdkCall p],
           hook_error = Some (JStr ErrorTypes_UNKNOWN, msg_unexpected) \<rparr>))"
proof (intro conjI allI impI)
  fix w p and r :: int and s :: pstate and sdkError v s'
  assume h: "sdk_path w \<and> sdk_attempt w s = Inl sdkError \<and> \<not> exn_nullish sdkError \<and>
      callDirectAPI w p (emit (SdkCall p) (s\<lparr>hook_error := None\<rparr>)) = (Inr v, s')"
  then have "attempt w p (s\<lparr>hook_error := None\<rparr>) = (Inr v, s')"
    using attempt_falls_through [of w "s\<lparr>hook_error := None\<rparr>" sdkError p] by simp
  then show "callPuterAI w p r s = (Inr v, s')"
    by (subst callPuterAI.simps) simp
next
  fix w p and r :: int and s :: pstate and sdkError e s'
  assume h: "sdk_path w \<and> sdk_attempt w s = Inl sdkError \<and> \<not> exn_nullish sdkError \<and>
      callDirectAPI w p (emit (SdkCall p) (s\<lparr>hook_error := None\<rparr>)) = (Inl e, s') \<and>
      \<not> (0 < r \<and> retryable (errorType_of e))"
  then have "attempt w p (s\<lparr>hook_error := None\<rparr>) = (Inl e, s')"
    using attempt_falls_through [of w "s\<lparr>hook_error := None\<rparr>" sdkError p] by simp
  with h show "callPuterAI w p r s =
        (Inl (ErrorInst ''Error'' (userFriendlyMessage (errorType_of e))),
         s'\<lparr>hook_error := Some (errorType_of e, userFriendlyMessage (errorType_of e))\<rparr>)"
    by (intro final_step) simp_all
next
  fix w p and r :: int and s :: pstate and v
  assume h: "sdk_path w \<and> sdk_reply w (sdk_calls (trace s)) = SdkRejects (Thrown v) \<and> nullish v"
  then have a: "attempt w p (s\<lparr>hook_error := None\<rparr>) =
      (Inl (nullish_read v ''message''), emit (SdkCall p) (s\<lparr>hook_error := None\<rparr>))"
    by (intro attempt_nullish_rejection) simp_all
  from final_step [OF a, of r]
  show "callPuterAI w p r s =
        (Inl (ErrorInst ''Error'' msg_unexpected),
         \<lparr> trace = trace s @ [SdkCall p],
           hook_error = Some (JStr ErrorTypes_UNKNOWN, msg_unexpected) \<rparr>)"
    by (simp add: emit_def)
qed

theorem sdk_rejection_without_reason_witness:
  "callPuterAI
     (sdk_world (SdkResolves (JObj [(''status'', JStr ''ok'')])) (Some ''secret'')
        (Responds 200 (Inr (JObj [(''text'', JStr ''from the direct call'')]))))
     ''hello'' 3 pstate0 =
   (Inr (JStr ''from the direct call''),
    \<lparr> trace = [SdkCall ''hello'', Fetch ''hello''], hook_error = None \<rparr>) \<and>
   callPuterAI
     (sdk_world (SdkRejects (ErrorInst ''Error'' ''busy'')) (Some ''secret'')
        (Responds 401 (Inr (JObj []))))
     ''hello'' 3 pstate0 =
   (Inl (ErrorInst ''Error'' msg_auth),
    \<lparr> trace = [SdkCall ''hello'', Fetch ''hello''],
      hook_error = Some (JStr ErrorTypes_AUTH, msg_auth) \<rparr>) \<and>
   callPuterAI
     (sdk_world (SdkRejects (Thrown JUndefined)) (Some ''secret'')
        (Responds 200 (Inr (JObj [(''text'', JStr ''from the direct call'')]))))
     ''hello'' 3 pstate0 =
   (Inl (ErrorInst ''Error'' msg_unexpected),
    \<lparr> trace = [SdkCall ''hello''],
      hook_error = Some (JStr ErrorTypes_UNKNOWN, msg_unexpected) \<rparr>)"
proof -
  let ?ok = "Responds 200 (Inr (JObj [(''text'', JStr ''from the direct call'')]))"
  let ?w1 = "sdk_world (SdkResolves (JObj [(''status'', JStr ''ok'')])) (Some ''secret'') ?ok"
  let ?w2 = "sdk_world (SdkRejects (ErrorInst ''Error'' ''busy'')) (Some ''secret'')
        (Responds 401 (Inr (JObj [])))"
  let ?w3 = "sdk_world (SdkRejects (Thrown JUndefined)) (Some ''secret'') ?ok"
  let ?s = "emit (SdkCall ''hello'') (pstate0\<lparr>hook_error := None\<rparr>)"
  let ?t = "\<lparr> trace = [SdkCall ''hello'', Fetch ''hello''], hook_error = None \<rparr>"
  note c = sdk_rejection_without_reason
  have h1: "sdk_path ?w1 \<and>
      sdk_attempt ?w1 pstate0 = Inl (ErrorInst ''Error'' ''Invalid SDK response format'') \<and>
      \<not> exn_nullish (ErrorInst ''Error'' ''Invalid SDK response format'') \<and>
      callDirectAPI ?w1 ''hello'' ?s = (Inr (JStr ''from the direct call''), ?t)"
    by (simp add: sdk_attempt_def sdk_normalize_def opt_prop_def callDirectAPI_def
        callDirectAPI_try_def response_ok_def extract_text_def js_or_def emit_def pstate0_def)
  have h2: "sdk_path ?w2 \<and> sdk_attempt ?w2 pstate0 = Inl (ErrorInst ''Error'' ''busy'') \<and>
      \<not> exn_nullish (ErrorInst ''Error'' ''busy'') \<and>
      callDirectAPI ?w2 ''hello'' ?s =
        (Inl (typed_error ErrorTypes_AUTH (JStr ''Invalid API key'') 401), ?t) \<and>
      \<not> (0 < (3::int) \<and>
         retryable (errorType_of (typed_error ErrorTypes_AUTH (JStr ''Invalid API key'') 401)))"
    by (simp add: sdk_attempt_def callDirectAPI_401 emit_def pstate0_def)
  have h3: "sdk_path ?w3 \<and>
      sdk_reply ?w3 (sdk_calls (trace pstate0)) = SdkRejects (Thrown JUndefined) \<and>
      nullish JUndefined"
    by simp
  have 1: "callPuterAI ?w1 ''hello'' 3 pstate0 = (Inr (JStr ''from the direct call''), ?t)"
    using c [THEN conjunct1, rule_format, OF h1] .
  have 2: "callPuterAI ?w2 ''hello'' 3 pstate0 =
      (Inl (ErrorInst ''Error'' msg_auth),
       ?t\<lparr>hook_error := Some (JStr ErrorTypes_AUTH, msg_auth)\<rparr>)"
    using c [THEN conjunct2, THEN conjunct1, rule_format, OF h2] by simp
  have 3: "callPuterAI ?w3 ''hello'' 3 pstate0 =
      (Inl (ErrorInst ''Error'' msg_unexpected),
       \<lparr> trace = trace pstate0 @ [SdkCall ''hello''],
         hook_error = Some (JStr ErrorTypes_UNKNOWN, msg_unexpected) \<rparr>)"
    using c [THEN conjunct2, THEN conjunct2, rule_format, OF h3] .
  from 1 2 3 show ?thesis
    by (simp add: pstate0_def)
qed

lemma bare_world_simps [simp]:
  "\<not> sdk_path (bare_world environment)"
  "\<not> key_configured (config (bare_world environment))"
  "ENVIRONMENT (config (bare_world environment)) = environment"
  by (simp_all add: bare_world_def sdk_path_def key_configured_def example_config_def)

text \<open>
  C4, as the code has it. With the SDK branch not taken and no key configured, the
  pipeline returns the mock response, after a delay of 1000 ms and without any call, exactly
  when the environment name is \<^verbatim>\<open>development\<close>; under every other name it throws the
  authentication user message at once, without a retry, whatever \<^verbatim>\<open>retries\<close> is. The mock
  depends on the prompt only.
\<close>

theorem no_path_mock_or_auth:
  assumes "\<not> sdk_path w" and "\<not> key_configured (config w)"
  shows "callPuterAI w p r s =
     (if ENVIRONMENT (config w) = ''development''
      then (Inr (JStr (mock_response p)),
            \<lparr> trace = trace s @ [Sleep 1000], hook_error = None \<rparr>)
      else (Inl (ErrorInst ''Error'' msg_auth),
            \<lparr> trace = trace s, hook_error = Some (JStr ErrorTypes_AUTH, msg_auth) \<rparr>))"
proof (cases "ENVIRONMENT (config w) = ''development''")
  case True
  with assms have "attempt w p (s\<lparr>hook_error := None\<rparr>) =
      (Inr (JStr (mock_response p)), emit (Sleep 1000) (s\<lparr>hook_error := None\<rparr>))"
    by (simp add: attempt_def)
  with True show ?thesis
    by (subst callPuterAI.simps) (simp add: emit_def)
next
  case False
  with assms have a: "attempt w p (s\<lparr>hook_error := None\<rparr>) =
      (Inl not_configured_error, s\<lparr>hook_error := None\<rparr>)"
    by (simp add: attempt_def)
  have "errorType_of not_configured_error = JStr ErrorTypes_AUTH"
    by (simp add: not_configured_error_def errorType_of_def js_or_def)
  with False final_step [OF a, of r] show ?thesis
    by simp
qed

theorem no_path_mock_or_auth_witness:
  "callPuterAI (bare_world ''development'') ''hello'' 3 pstate0 =
     (Inr (JStr (mock_response ''hello'')),
      \<lparr> trace = [Sleep 1000], hook_error = None \<rparr>) \<and>
   callPuterAI (bare_world ''Live'') ''hello'' 3 pstate0 =
     (Inl (ErrorInst ''Error'' msg_auth),
      \<lparr> trace = [], hook_error = Some (JStr ErrorTypes_AUTH, msg_auth) \<rparr>)"
  using no_path_mock_or_auth [of "bare_world ''development''" "''hello''" 3 pstate0]
    no_path_mock_or_auth [of "bare_world ''Live''" "''hello''" 3 pstate0]
  by (simp add: pstate0_def)

text \<open>
  C4 as it is stated fails in an environment that is not production and is not
  named \<^verbatim>\<open>development\<close>: under the name \<^verbatim>\<open>staging\<close>, with no SDK and no key, there is
  no mock response; the pipeline throws the authentication message.
\<close>

theorem no_mock_in_staging:
  "ENVIRONMENT (config (bare_world ''staging'')) = ''staging'' \<and>
   \<not> sdk_path (bare_world ''staging'') \<and>
   \<not> key_configured (config (bare_world ''staging'')) \<and>
   callPuterAI (bare_world ''staging'') ''hello'' 3 pstate0 =
     (Inl (ErrorInst ''Error'' msg_auth),
      \<lparr> trace = [], hook_error = Some (JStr ErrorTypes_AUTH, msg_auth) \<rparr>)"
proof -
  have "callPuterAI (bare_world ''staging'') ''hello'' 3 pstate0 =
     (Inl (ErrorInst ''Error'' msg_auth),
      \<lparr> trace = [], hook_error = Some (JStr ErrorTypes_AUTH, msg_auth) \<rparr>)"
    by code_simp
  then show ?thesis by simp
qed

lemma sdk_normalize_not_string:
  "(\<forall>s. r \<noteq> JStr s) \<Longrightarrow>
   sdk_normalize r =
     (if truthy (opt_prop (opt_prop r ''message'') ''content'')
      then (case get_prop (get_prop r ''message'') ''content'' of
              JArr parts \<Rightarrow> Inr (js_or (opt_prop (first_elem parts) ''text'') (JStr []))
            | c \<Rightarrow> Inr c)
      else Inl (ErrorInst ''Error'' ''Invalid SDK response format''))"
  by (cases r) (simp_all add: sdk_normalize_def)

lemma content_read:
  "truthy (opt_prop (opt_prop r ''message'') ''content'') \<Longrightarrow>
   get_prop (get_prop r ''message'') ''content'' = opt_prop (opt_prop r ''message'') ''content''"
  by (cases "nullish r"; cases "nullish (get_prop r ''message'')") (simp_all add: opt_prop_def)

text \<open>
  C6, as the code has it. A string is returned as it is. For any other response the
  content is \<^verbatim>\<open>response?.message?.content\<close>: a truthy content that is not a list is
  returned as it is; a list gives the \<^verbatim>\<open>text\<close> of its first part when that is truthy,
  and otherwise (an empty list, a first part without text) the empty string, as a success;
  a content that is not truthy makes the branch throw
  \<^verbatim>\<open>Error("Invalid SDK response format")\<close>, which is what sends the attempt on to the
  direct call.
\<close>

theorem sdk_normalize_cases:
  "sdk_normalize (JStr s) = Inr (JStr s) \<and>
   (\<forall>r c. (\<forall>s. r \<noteq> JStr s) \<and> opt_prop (opt_prop r ''message'') ''content'' = c \<and>
           truthy c \<and> (\<forall>parts. c \<noteq> JArr parts) \<longrightarrow>
      sdk_normalize r = Inr c) \<and>
   (\<forall>r part rest. (\<forall>s. r \<noteq> JStr s) \<and>
           opt_prop (opt_prop r ''message'') ''content'' = JArr (part # rest) \<and>
           truthy (opt_prop part ''text'') \<longrightarrow>
      sdk_normalize r = Inr (opt_prop part ''text'')) \<and>
   (\<forall>r part rest. (\<forall>s. r \<noteq> JStr s) \<and>
           opt_prop (opt_prop r ''message'') ''content'' = JArr (part # rest) \<and>
           \<not> truthy (opt_prop part ''text'') \<longrightarrow>
      sdk_normalize r = Inr (JStr [])) \<and>
   (\<forall>r. (\<forall>s. r \<noteq> JStr s) \<and> opt_prop (opt_prop r ''message'') ''content'' = JArr [] \<longrightarrow>
      sdk_normalize r = Inr (JStr [])) \<and>
   (\<forall>r. (\<forall>s. r \<noteq> JStr s) \<and> \<not> truthy (opt_prop (opt_prop r ''message'') ''content'') \<longrightarrow>
      sdk_normalize r = Inl (ErrorInst ''Error'' ''Invalid SDK response format''))"
proof (intro conjI allI impI)
  show "sdk_normalize (JStr s) = Inr (JStr s)"
    by (simp add: sdk_normalize_def)
next
  fix r c
  assume h: "(\<forall>s. r \<noteq> JStr s) \<and> opt_prop (opt_prop r ''message'') ''content'' = c \<and>
           truthy c \<and> (\<forall>parts. c \<noteq> JArr parts)"
  then have "get_prop (get_prop r ''message'') ''content'' = c"
    using content_read [of r] by simp
  with h show "sdk_normalize r = Inr c"
    by (cases c) (simp_all add: sdk_normalize_not_string)
next
  fix r part rest
  assume h: "(\<forall>s. r \<noteq> JStr s) \<and>
           opt_prop (opt_prop r ''message'') ''content'' = JArr (part # rest) \<and>
           truthy (opt_prop part ''text'')"
  then have "get_prop (get_prop r ''message'') ''content'' = JArr (part # rest)"
    using content_read [of r] by simp
  with h show "sdk_normalize r = Inr (opt_prop part ''text'')"
    by (simp add: sdk_normalize_not_string js_or_def)
next
  fix r part rest
  assume h: "(\<forall>s. r \<noteq> JStr s) \<and>
           opt_prop (opt_prop r ''message'') ''content'' = JArr (part # rest) \<and>
           \<not> truthy (opt_prop part ''text'')"
  then have "get_prop (get_prop r ''message'') ''content'' = JArr (part # rest)"
    using content_read [of r] by simp
  with h show "sdk_normalize r = Inr (JStr [])"
    by (simp add: sdk_normalize_not_string js_or_def)
next
  fix r
  assume h: "(\<forall>s. r \<noteq> JStr s) \<and> opt_prop (opt_prop r ''message'') ''content'' = JArr []"
  then have "get_prop (get_prop r ''message'') ''content'' = JArr []"
    using content_read [of r] by simp
  with h show "sdk_normalize r = Inr (JStr [])"
    by (simp add: sdk_normalize_not_string js_or_def opt_prop_def)
next
  fix r
  assume "(\<forall>s. r \<noteq> JStr s) \<and> \<not> truthy (opt_prop (opt_prop r ''message'') ''content'')"
  then show "sdk_normalize r = Inl (ErrorInst ''Error'' ''Invalid SDK response format'')"
    by (simp add: sdk_normalize_not_string)
qed

lemma with_content_read [simp]:
  "opt_prop (opt_prop (with_content c) ''message'') ''content'' = c"
  by (simp add: with_content_def opt_prop_def)

theorem sdk_normalize_cases_witness:
  "sdk_normalize (with_content (JStr ''Hi there'')) = Inr (JStr ''Hi there'') \<and>
   sdk_normalize (with_content (JArr [JObj [(''type'', JStr ''text''), (''text'', JStr ''Hi'')]])) =
     Inr (JStr ''Hi'') \<and>
   sdk_normalize (with_content (JArr [JObj [(''type'', JStr ''image'')]])) = Inr (JStr []) \<and>
   sdk_normalize (with_content (JArr [])) = Inr (JStr []) \<and>
   sdk_normalize (JObj [(''status'', JStr ''ok'')]) =
     Inl (ErrorInst ''Error'' ''Invalid SDK response format'')"
proof -
  note c = sdk_normalize_cases [where s = "''unused''"]
  let ?text = "JObj [(''type'', JStr ''text''), (''text'', JStr ''Hi'')]"
  let ?image = "JObj [(''type'', JStr ''image'')]"
  have ns: "\<And>c s. with_content c \<noteq> JStr s" "\<And>s. JObj [(''status'', JStr ''ok'')] \<noteq> JStr s"
    by (simp_all add: with_content_def)
  have t: "opt_prop ?text ''text'' = JStr ''Hi''" "opt_prop ?image ''text'' = JUndefined"
    "opt_prop (opt_prop (JObj [(''status'', JStr ''ok'')]) ''message'') ''content'' = JUndefined"
    by (simp_all add: opt_prop_def)
  have 1: "sdk_normalize (with_content (JStr ''Hi there'')) = Inr (JStr ''Hi there'')"
    using c [THEN conjunct2, THEN conjunct1, rule_format,
        of "with_content (JStr ''Hi there'')" "JStr ''Hi there''"] ns
    by simp
  have 2: "sdk_normalize (with_content (JArr [?text])) = Inr (JStr ''Hi'')"
    using c [THEN conjunct2, THEN conjunct2, THEN conjunct1, rule_format,
        of "with_content (JArr [?text])" ?text "[]"] ns t
    by simp
  have 3: "sdk_normalize (with_content (JArr [?image])) = Inr (JStr [])"
    using c [THEN conjunct2, THEN conjunct2, THEN conjunct2, THEN conjunct1, rule_format,
        of "with_content (JArr [?image])" ?image "[]"] ns t
    by simp
  have 4: "sdk_normalize (with_content (JArr [])) = Inr (JStr [])"
    using c [THEN conjunct2, THEN conjunct2, THEN conjunct2, THEN conjunct2, THEN conjunct1,
        rule_format, of "with_content (JArr [])"] ns
    by simp
  have 5: "sdk_normalize (JObj [(''status'', JStr ''ok'')]) =
      Inl (ErrorInst ''Error'' ''Invalid SDK response format'')"
    using c [THEN conjunct2, THEN conjunct2, THEN conjunct2, THEN conjunct2, THEN conjunct2,
        rule_format, of "JObj [(''status'', JStr ''ok'')]"] ns t
    by simp
  from 1 2 3 4 5 show ?thesis by simp
qed

text \<open>
  C6 as it is stated fails on a content of two parts, of which only the first is
  returned, and on a content that is the empty list, which has no text and yet is a
  success, with the empty string.
\<close>

theorem sdk_normalize_first_part_only:
  "sdk_normalize
     (with_content (JArr [JObj [(''type'', JStr ''text''), (''text'', JStr ''Hello, '')],
                          JObj [(''type'', JStr ''text''), (''text'', JStr ''world'')]])) =
     Inr (JStr ''Hello, '') \<and>
   sdk_normalize (with_content (JArr [])) = Inr (JStr [])"
  by (simp add: sdk_normalize_def with_content_def opt_prop_def js_or_def)

section \<open>Properties of the reveal\<close>

lemma filter_owned:
  "list_all (\<lambda>(j, r). j = i) xs \<Longrightarrow> filter (\<lambda>(j, r). j \<noteq> i) xs = []"
  by (induction xs) auto

lemma clear_ref_interval_owned:
  assumes "timers_owned s"
  shows "clear_ref_interval s = s\<lparr>intervals := []\<rparr>"
proof (cases "streamIntervalRef s")
  case None
  with assms have "intervals s = []"
    by (cases "intervals s") (auto simp: timers_owned_def)
  with None show ?thesis
    by (simp add: clear_ref_interval_def)
next
  case (Some i)
  with assms have "list_all (\<lambda>(j, r). j = i) (intervals s)"
    by (auto simp: timers_owned_def list_all_iff)
  then have "filter (\<lambda>(j, r). j \<noteq> i) (intervals s) = []"
    by (rule filter_owned)
  with Some show ?thesis
    by (simp add: clear_ref_interval_def clearInterval_def)
qed

text \<open>In such a state the call leaves exactly one timer, the new one.\<close>

lemma simulateStreaming_owned:
  assumes "timers_owned s"
  shows "simulateStreaming txt s =
     s\<lparr>isStreaming := True, streamingMessage := [],
       streamIntervalRef := Some (next_timer s),
       intervals := [(next_timer s, \<lparr>index = 0, words = split_space txt, fullText = txt\<rparr>)],
       next_timer := Suc (next_timer s)\<rparr>"
  by (simp add: simulateStreaming_def clear_ref_interval_owned [OF assms] Let_def)

lemma ticks_inactive: "map_of (intervals t) i = None \<Longrightarrow> ticks n i t = t"
  by (induction n) (simp_all add: fire_def)

lemma ticks_add: "ticks (m + n) i t = ticks n i (ticks m i t)"
  by (induction m arbitrary: t) simp_all

lemma ticks_after:
  assumes "intervals (ticks m i t) = []" and "m \<le> n"
  shows "ticks n i t = ticks m i t"
proof -
  from assms(2) have "n = m + (n - m)" by simp
  then have "ticks n i t = ticks (n - m) i (ticks m i t)"
    by (metis ticks_add)
  with assms(1) show ?thesis
    by (simp add: ticks_inactive)
qed

lemma split_alpha_beta_gamma:
  "split_space ''alpha beta gamma'' = [''alpha'', ''beta'', ''gamma'']"
  by simp

text \<open>
  C7. \<^verbatim>\<open>simulateStreaming("alpha beta gamma")\<close>, called in a state whose only timer (if
  any) is the reference's, empties the buffer and starts a timer. Its first three firings
  do not leave the prefixes \<^verbatim>\<open>alpha\<close>, \<^verbatim>\<open>alpha beta\<close>, \<^verbatim>\<open>alpha beta gamma\<close> in the
  buffer: each updater reads the word after the one it was queued for, so the buffer holds
  \<^verbatim>\<open>beta\<close>, then \<^verbatim>\<open>beta gamma\<close>, then \<^verbatim>\<open>beta gamma undefined\<close>, with the message list
  untouched and the reveal still on. The firing after the third appends the record of the
  full text to the message list, empties the buffer, ends the reveal and clears the timer;
  no later firing changes anything.
\<close>

theorem reveal_reads_incremented_index:
  assumes "timers_owned s"
  shows "let i = next_timer s; s0 = simulateStreaming ''alpha beta gamma'' s in
     streamingMessage s0 = [] \<and>
     streamingMessage (ticks 1 i s0) = ''beta'' \<and>
     streamingMessage (ticks 2 i s0) = ''beta gamma'' \<and>
     streamingMessage (ticks 3 i s0) = ''beta gamma undefined'' \<and>
     (\<forall>n\<le>3. messages (ticks n i s0) = messages s \<and> isStreaming (ticks n i s0)) \<and>
     messages (ticks 4 i s0) =
       messages s @ [\<lparr>sender = ''ai'', msg_text = ''alpha beta gamma''\<rparr>] \<and>
     streamingMessage (ticks 4 i s0) = [] \<and>
     \<not> isStreaming (ticks 4 i s0) \<and>
     intervals (ticks 4 i s0) = [] \<and>
     (\<forall>n\<ge>4. ticks n i s0 = ticks 4 i s0)"
proof -
  define i where "i = next_timer s"
  define T where "T = ''alpha beta gamma''"
  define S where "S = (\<lambda>k buf.
     s\<lparr>isStreaming := True, streamingMessage := buf, streamIntervalRef := Some i,
       intervals := [(i, \<lparr>index = k, words = [''alpha'', ''beta'', ''gamma''], fullText = T\<rparr>)],
       next_timer := Suc i\<rparr>)"
  define s0 where "s0 = simulateStreaming T s"
  have s0: "s0 = S 0 []"
    unfolding s0_def S_def i_def T_def
    by (simp add: simulateStreaming_owned [OF assms])
  have step: "\<And>k buf. k < 3 \<Longrightarrow>
      fire i (S k buf) =
        S (Suc k) (append_word buf (word_at [''alpha'', ''beta'', ''gamma''] (Suc k)))"
    by (simp add: S_def fire_def)
  have commit: "\<And>buf. fire i (S 3 buf) =
      (S 3 [])\<lparr>intervals := [], isStreaming := False,
               messages := messages s @ [\<lparr>sender = ''ai'', msg_text = T\<rparr>]\<rparr>"
    by (simp add: S_def fire_def clear_ref_interval_def clearInterval_def)
  have t1: "ticks 1 i s0 = S 1 ''beta''"
    by (simp add: s0 step append_word_def word_at_def)
  have t2: "ticks 2 i s0 = S 2 ''beta gamma''"
    by (simp add: s0 step append_word_def word_at_def numeral_2_eq_2)
  have t3: "ticks 3 i s0 = S 3 ''beta gamma undefined''"
    by (simp add: s0 step append_word_def word_at_def numeral_3_eq_3)
  have t4: "ticks 4 i s0 =
      (S 3 [])\<lparr>intervals := [], isStreaming := False,
               messages := messages s @ [\<lparr>sender = ''ai'', msg_text = T\<rparr>]\<rparr>"
  proof -
    have "ticks 4 i s0 = fire i (ticks 3 i s0)"
      using ticks_add [of 3 1 i s0] by simp
    then show ?thesis
      by (simp add: t3 commit)
  qed
  have m0: "messages (ticks 0 i s0) = messages s \<and> isStreaming (ticks 0 i s0)"
    by (simp add: s0 S_def)
  have m1: "messages (ticks 1 i s0) = messages s \<and> isStreaming (ticks 1 i s0)"
    unfolding t1 by (simp add: S_def)
  have m2: "messages (ticks 2 i s0) = messages s \<and> isStreaming (ticks 2 i s0)"
    unfolding t2 by (simp add: S_def)
  have m3: "messages (ticks 3 i s0) = messages s \<and> isStreaming (ticks 3 i s0)"
    unfolding t3 by (simp add: S_def)
  have upto: "\<forall>n\<le>3. messages (ticks n i s0) = messages s \<and> isStreaming (ticks n i s0)"
  proof (intro allI impI)
    fix n :: nat
    assume "n \<le> 3"
    then consider "n = 0" | "n = 1" | "n = 2" | "n = 3" by linarith
    then show "messages (ticks n i s0) = messages s \<and> isStreaming (ticks n i s0)"
    proof cases
      case 1 show ?thesis unfolding 1 by (rule m0)
    next
      case 2 show ?thesis unfolding 2 by (rule m1)
    next
      case 3 show ?thesis unfolding 3 by (rule m2)
    next
      case 4 show ?thesis unfolding 4 by (rule m3)
    qed
  qed
  have "intervals (ticks 4 i s0) = []"
    unfolding t4 by (simp add: S_def)
  then have after: "\<forall>n\<ge>4. ticks n i s0 = ticks 4 i s0"
    by (intro allI impI ticks_after)
  have b0: "streamingMessage s0 = []"
    by (simp add: s0 S_def)
  have b1: "streamingMessage (ticks 1 i s0) = ''beta''"
    unfolding t1 by (simp add: S_def)
  have b2: "streamingMessage (ticks 2 i s0) = ''beta gamma''"
    unfolding t2 by (simp add: S_def)
  have b3: "streamingMessage (ticks 3 i s0) = ''beta gamma undefined''"
    unfolding t3 by (simp add: S_def)
  have c1: "messages (ticks 4 i s0) = messages s @ [\<lparr>sender = ''ai'', msg_text = T\<rparr>]"
    unfolding t4 by (simp add: S_def)
  have c2: "streamingMessage (ticks 4 i s0) = []"
    unfolding t4 by (simp add: S_def)
  have c3: "\<not> isStreaming (ticks 4 i s0)"
    unfolding t4 by (simp add: S_def)
  have c4: "intervals (ticks 4 i s0) = []"
    unfolding t4 by (simp add: S_def)
  from b0 b1 b2 b3 upto c1 c2 c3 c4 after
  have "streamingMessage s0 = [] \<and>
     streamingMessage (ticks 1 i s0) = ''beta'' \<and>
     streamingMessage (ticks 2 i s0) = ''beta gamma'' \<and>
     streamingMessage (ticks 3 i s0) = ''beta gamma undefined'' \<and>
     (\<forall>n\<le>3. messages (ticks n i s0) = messages s \<and> isStreaming (ticks n i s0)) \<and>
     messages (ticks 4 i s0) = messages s @ [\<lparr>sender = ''ai'', msg_text = T\<rparr>] \<and>
     streamingMessage (ticks 4 i s0) = [] \<and>
     \<not> isStreaming (ticks 4 i s0) \<and>
     intervals (ticks 4 i s0) = [] \<and>
     (\<forall>n\<ge>4. ticks n i s0 = ticks 4 i s0)"
    by blast
  then show ?thesis
    unfolding Let_def i_def s0_def T_def .
qed

lemma one_message_app_simps [simp]:
  "timers_owned one_message_app"
  "next_timer one_message_app = 1"
  "messages one_message_app = [\<lparr>sender = ''user'', msg_text = ''name three letters''\<rparr>]"
  by (simp_all add: one_message_app_def app0_def timers_owned_def)

theorem reveal_reads_incremented_index_witness:
  "streamingMessage (ticks 1 1 (simulateStreaming ''alpha beta gamma'' one_message_app)) =
     ''beta'' \<and>
   streamingMessage (ticks 2 1 (simulateStreaming ''alpha beta gamma'' one_message_app)) =
     ''beta gamma'' \<and>
   streamingMessage (ticks 3 1 (simulateStreaming ''alpha beta gamma'' one_message_app)) =
     ''beta gamma undefined'' \<and>
   messages (ticks 3 1 (simulateStreaming ''alpha beta gamma'' one_message_app)) =
     [\<lparr>sender = ''user'', msg_text = ''name three letters''\<rparr>] \<and>
   messages (ticks 4 1 (simulateStreaming ''alpha beta gamma'' one_message_app)) =
     [\<lparr>sender = ''user'', msg_text = ''name three letters''\<rparr>,
      \<lparr>sender = ''ai'', msg_text = ''alpha beta gamma''\<rparr>] \<and>
   streamingMessage (ticks 4 1 (simulateStreaming ''alpha beta gamma'' one_message_app)) = [] \<and>
   ticks 7 1 (simulateStreaming ''alpha beta gamma'' one_message_app) =
     ticks 4 1 (simulateStreaming ''alpha beta gamma'' one_message_app)"
proof -
  have o: "timers_owned one_message_app" by simp
  have a: "(3::nat) \<le> 3" "(4::nat) \<le> 7" by simp_all
  note r = reveal_reads_incremented_index [OF o, unfolded Let_def one_message_app_simps]
  from r a show ?thesis
    by (metis append_Cons append_Nil)
qed

text \<open>
  C8, as the code has it. \<^verbatim>\<open>"".split(" ")\<close> is one empty word, so the reveal of the empty
  string is not over at the call: \<^verbatim>\<open>simulateStreaming("")\<close> empties the buffer, starts the
  timer and commits nothing. The first firing is the tick of that one word: the message
  list is untouched, the reveal is still on and the timer still active. The second firing
  appends the record with the empty text, empties the buffer, ends the reveal and clears
  the timer; no later firing changes anything.
\<close>

theorem reveal_empty_string:
  assumes "timers_owned s"
  shows "let i = next_timer s; s0 = simulateStreaming [] s in
     messages s0 = messages s \<and> isStreaming s0 \<and> streamingMessage s0 = [] \<and>
     intervals s0 = [(i, \<lparr>index = 0, words = [[]], fullText = []\<rparr>)] \<and>
     messages (ticks 1 i s0) = messages s \<and> isStreaming (ticks 1 i s0) \<and>
     intervals (ticks 1 i s0) = [(i, \<lparr>index = 1, words = [[]], fullText = []\<rparr>)] \<and>
     messages (ticks 2 i s0) = messages s @ [\<lparr>sender = ''ai'', msg_text = []\<rparr>] \<and>
     streamingMessage (ticks 2 i s0) = [] \<and>
     \<not> isStreaming (ticks 2 i s0) \<and>
     intervals (ticks 2 i s0) = [] \<and>
     (\<forall>n\<ge>2. ticks n i s0 = ticks 2 i s0)"
proof -
  define i where "i = next_timer s"
  define S where "S = (\<lambda>k buf.
     s\<lparr>isStreaming := True, streamingMessage := buf, streamIntervalRef := Some i,
       intervals := [(i, \<lparr>index = k, words = [[]], fullText = []\<rparr>)],
       next_timer := Suc i\<rparr>)"
  define s0 where "s0 = simulateStreaming [] s"
  have s0: "s0 = S 0 []"
    unfolding s0_def S_def i_def
    by (simp add: simulateStreaming_owned [OF assms])
  have step: "fire i (S 0 []) = S 1 ''undefined''"
    unfolding S_def by (simp add: fire_def append_word_def word_at_def)
  have commit: "fire i (S 1 ''undefined'') =
      (S 1 [])\<lparr>intervals := [], isStreaming := False,
                messages := messages s @ [\<lparr>sender = ''ai'', msg_text = []\<rparr>]\<rparr>"
    unfolding S_def by (simp add: fire_def clear_ref_interval_def clearInterval_def)
  have t1: "ticks 1 i s0 = S 1 ''undefined''"
    using step by (simp add: s0)
  have t2: "ticks 2 i s0 =
      (S 1 [])\<lparr>intervals := [], isStreaming := False,
                messages := messages s @ [\<lparr>sender = ''ai'', msg_text = []\<rparr>]\<rparr>"
  proof -
    have "ticks 2 i s0 = fire i (ticks 1 i s0)"
      by (simp add: numeral_2_eq_2)
    then show ?thesis
      unfolding t1 commit .
  qed
  have a0: "messages s0 = messages s \<and> isStreaming s0 \<and> streamingMessage s0 = [] \<and>
      intervals s0 = [(i, \<lparr>index = 0, words = [[]], fullText = []\<rparr>)]"
    by (simp add: s0 S_def)
  have a1: "messages (ticks 1 i s0) = messages s \<and> isStreaming (ticks 1 i s0) \<and>
      intervals (ticks 1 i s0) = [(i, \<lparr>index = 1, words = [[]], fullText = []\<rparr>)]"
    unfolding t1 by (simp add: S_def)
  have a2: "messages (ticks 2 i s0) = messages s @ [\<lparr>sender = ''ai'', msg_text = []\<rparr>] \<and>
      streamingMessage (ticks 2 i s0) = [] \<and> \<not> isStreaming (ticks 2 i s0) \<and>
      intervals (ticks 2 i s0) = []"
    unfolding t2 by (simp add: S_def)
  then have after: "\<forall>n\<ge>2. ticks n i s0 = ticks 2 i s0"
    by (intro allI impI ticks_after) simp_all
  from a0 a1 a2 after
  have "
     messages s0 = messages s \<and> isStreaming s0 \<and> streamingMessage s0 = [] \<and>
     intervals s0 = [(i, \<lparr>index = 0, words = [[]], fullText = []\<rparr>)] \<and>
     messages (ticks 1 i s0) = messages s \<and> isStreaming (ticks 1 i s0) \<and>
     intervals (ticks 1 i s0) = [(i, \<lparr>index = 1, words = [[]], fullText = []\<rparr>)] \<and>
     messages (ticks 2 i s0) = messages s @ [\<lparr>sender = ''ai'', msg_text = []\<rparr>] \<and>
     streamingMessage (ticks 2 i s0) = [] \<and>
     \<not> isStreaming (ticks 2 i s0) \<and>
     intervals (ticks 2 i s0) = [] \<and>
     (\<forall>n\<ge>2. ticks n i s0 = ticks 2 i s0)"
    by blast
  then show ?thesis
    unfolding Let_def i_def s0_def .
qed

theorem reveal_empty_string_witness:
  "messages (simulateStreaming [] one_message_app) =
     [\<lparr>sender = ''user'', msg_text = ''name three letters''\<rparr>] \<and>
   messages (ticks 1 1 (simulateStreaming [] one_message_app)) =
     [\<lparr>sender = ''user'', msg_text = ''name three letters''\<rparr>] \<and>
   messages (ticks 2 1 (simulateStreaming [] one_message_app)) =
     [\<lparr>sender = ''user'', msg_text = ''name three letters''\<rparr>,
      \<lparr>sender = ''ai'', msg_text = []\<rparr>] \<and>
   ticks 5 1 (simulateStreaming [] one_message_app) =
     ticks 2 1 (simulateStreaming [] one_message_app)"
proof -
  have o: "timers_owned one_message_app" by simp
  have a: "(2::nat) \<le> 5" by simp
  note r = reveal_empty_string [OF o, unfolded Let_def one_message_app_simps]
  from r a show ?thesis
    by (metis append_Cons append_Nil)
qed

text \<open>
  C8 as it is stated fails from the state of a fresh component: when
  \<^verbatim>\<open>simulateStreaming("")\<close> returns, no record is committed and the reveal is on, with
  its timer active; that is still so after one firing; the record appears with the second.
\<close>

theorem reveal_empty_not_immediate:
  "messages (simulateStreaming [] app0) = [] \<and>
   isStreaming (simulateStreaming [] app0) \<and>
   intervals (simulateStreaming [] app0) \<noteq> [] \<and>
   messages (ticks 1 1 (simulateStreaming [] app0)) = [] \<and>
   isStreaming (ticks 1 1 (simulateStreaming [] app0)) \<and>
   intervals (ticks 1 1 (simulateStreaming [] app0)) \<noteq> [] \<and>
   messages (ticks 2 1 (simulateStreaming [] app0)) = [\<lparr>sender = ''ai'', msg_text = []\<rparr>]"
  by code_simp

section \<open>Properties of \<^verbatim>\<open>sendMessage\<close> and of the export\<close>

text \<open>
  What the first check of \<^verbatim>\<open>sendMessage\<close> takes for blank, and what its second counts: a
  no-break space is trimmed like a space, and an emoji counts two code units.
\<close>

lemma trim_examples:
  "trim ([CHR 0xC2, CHR 0xA0] @ '' hi '' @ [CHR 0x09, CHR 0xE3, CHR 0x80, CHR 0x80]) = ''hi''"
  "trim [CHR 0xC2, CHR 0xA0] = []"
  "js_length ([CHR 0xF0, CHR 0x9F, CHR 0x8C, CHR 0x90] @ '' ok'') = 5"
  by code_simp+





lemma app0_unreferenced: "fetches_unreferenced app0"
  by (simp add: fetches_unreferenced_def app0_def)



lemma first_prompt_sent:
  "sendMessage_begin (direct_world (\<lambda>i. failed_to_fetch)) (app0\<lparr>input := ''first prompt''\<rparr>) =
     app0\<lparr>messages := [\<lparr>sender = ''user'', msg_text = ''first prompt''\<rparr>], isTyping := True,
          abortControllerRef := Some 0, controllers := [False, False], inflight := [1]\<rparr>"
  by code_simp



lemma exportChat_length [simp]: "length (exportChat clock msgs) = length msgs"
  by (simp add: exportChat_def)

lemma exportChat_nth:
  "k < length msgs \<Longrightarrow>
   exportChat clock msgs ! k =
     \<lparr>role = sender (msgs ! k), content = msg_text (msgs ! k), timestamp = clock k\<rparr>"
  by (simp add: exportChat_def nth_enumerate_eq)

lemma exportChat_fields:
  "map role (exportChat clock msgs) = map sender msgs"
  "map content (exportChat clock msgs) = map msg_text msgs"
  "map timestamp (exportChat clock msgs) = map clock [0..<length msgs]"
  by (rule nth_equalityI; simp add: exportChat_nth)+

text \<open>
  C10. An exported record takes its role and content from the message and its timestamp
  from the clock at the export: the \<open>k\<close>-th record carries what the \<open>k\<close>-th
  \<^verbatim>\<open>new Date()\<close> of that export read, and nothing of the message decides it. So two
  exports of the same messages agree in every role and content, and where their clocks
  read differently the timestamps differ.
\<close>

theorem exportChat_fresh_timestamps:
  "length (exportChat clock msgs) = length msgs \<and>
   map role (exportChat clock msgs) = map sender msgs \<and>
   map content (exportChat clock msgs) = map msg_text msgs \<and>
   map timestamp (exportChat clock msgs) = map clock [0..<length msgs] \<and>
   (\<forall>clock' k. k < length msgs \<and> clock' k \<noteq> clock k \<longrightarrow>
      timestamp (exportChat clock' msgs ! k) \<noteq> timestamp (exportChat clock msgs ! k) \<and>
      role (exportChat clock' msgs ! k) = role (exportChat clock msgs ! k) \<and>
      content (exportChat clock' msgs ! k) = content (exportChat clock msgs ! k))"
  by (simp add: exportChat_fields exportChat_nth)

theorem exportChat_fresh_timestamps_witness:
  "timestamp (exportChat (\<lambda>k. 1700000060000) two_messages ! 1) \<noteq>
     timestamp (exportChat (\<lambda>k. 1700000000000) two_messages ! 1) \<and>
   role (exportChat (\<lambda>k. 1700000060000) two_messages ! 1) =
     role (exportChat (\<lambda>k. 1700000000000) two_messages ! 1) \<and>
   content (exportChat (\<lambda>k. 1700000060000) two_messages ! 1) =
     content (exportChat (\<lambda>k. 1700000000000) two_messages ! 1) \<and>
   map timestamp (exportChat (\<lambda>k. 1700000000000) two_messages) =
     [1700000000000, 1700000000000]"
proof -
  have h: "1 < length two_messages \<and>
      (\<lambda>k::nat. 1700000060000::int) 1 \<noteq> (\<lambda>k::nat. 1700000000000) 1"
    by (simp add: two_messages_def)
  note e = exportChat_fresh_timestamps [of "\<lambda>k. 1700000000000" two_messages]
  have "map timestamp (exportChat (\<lambda>k. 1700000000000) two_messages) =
      map (\<lambda>k. 1700000000000) [0..<length two_messages]"
    using e by blast
  moreover have "[0..<length two_messages] = [0, 1]"
    by (simp add: two_messages_def upt_rec)
  moreover note e [THEN conjunct2, THEN conjunct2, THEN conjunct2, THEN conjunct2,
      rule_format, OF h]
  ultimately show ?thesis
    by simp
qed

end
